theory Spec2Isabelle
  imports Main
begin

section \<open>Python values\<close>

text \<open>
  The program handles the objects that \<^verbatim>\<open>json.load\<close>, \<^verbatim>\<open>argparse\<close> and
  \<^verbatim>\<open>model_dump\<close> produce: \<^verbatim>\<open>None\<close>, booleans, integers, floats, strings, lists and
  dictionaries with string keys. A string is a list of characters read as code points
  below 256. A dictionary is an association list in insertion order. Of a float the
  program observes only its type and whether it is zero, which is all that is kept.
\<close>

datatype pyval =
    PNone
  | PBool bool
  | PInt int
  | PFloat bool
  | PStr string
  | PList "pyval list"
  | PDict "(string \<times> pyval) list"

text \<open>Truth value of an object, as \<^verbatim>\<open>if x\<close>, \<^verbatim>\<open>not x\<close>, \<^verbatim>\<open>bool(x)\<close> and \<^verbatim>\<open>and\<close>/\<^verbatim>\<open>or\<close> test it.\<close>

fun truthy :: "pyval \<Rightarrow> bool" where
  "truthy PNone = False"
| "truthy (PBool b) = b"
| "truthy (PInt i) = (i \<noteq> 0)"
| "truthy (PFloat nonzero) = nonzero"
| "truthy (PStr s) = (s \<noteq> [])"
| "truthy (PList xs) = (xs \<noteq> [])"
| "truthy (PDict d) = (d \<noteq> [])"

definition py_and :: "pyval \<Rightarrow> pyval \<Rightarrow> pyval" where
  "py_and a b = (if truthy a then b else a)"

definition py_or :: "pyval \<Rightarrow> pyval \<Rightarrow> pyval" where
  "py_or a b = (if truthy a then a else b)"

text \<open>An \<^verbatim>\<open>Optional[str]\<close>: \<^verbatim>\<open>None\<close> or a string.\<close>

fun of_opt :: "string option \<Rightarrow> pyval" where
  "of_opt None = PNone"
| "of_opt (Some s) = PStr s"

subsection \<open>Exceptions\<close>

text \<open>
  The instances of \<^verbatim>\<open>Exception\<close> that can arise, each with what identifies it.
  \<open>Raised m\<close> is an exception of a library or of the operating system whose \<^verbatim>\<open>str(e)\<close>
  is \<open>m\<close>. \<^verbatim>\<open>sys.exit(n)\<close> raises \<^verbatim>\<open>SystemExit\<close>, which is not an \<^verbatim>\<open>Exception\<close>: no
  \<^verbatim>\<open>except Exception\<close> clause catches it.
\<close>

datatype exn =
    ValueError string
  | NotInList string
  | KeyError string
  | TypeError
  | ValidationError
  | UnboundLocalError
  | Raised string

datatype abort = Exc exn | SysExit nat

subsection \<open>String operations\<close>

definition startswith :: "string \<Rightarrow> string \<Rightarrow> bool" where
  "startswith s p = (take (length p) s = p)"

definition endswith :: "string \<Rightarrow> string \<Rightarrow> bool" where
  "endswith s p = (length p \<le> length s \<and> drop (length s - length p) s = p)"

text \<open>\<^verbatim>\<open>p in s\<close> for two strings: \<open>p\<close> occurs in \<open>s\<close> as a contiguous run.\<close>

fun str_contains :: "string \<Rightarrow> string \<Rightarrow> bool" where
  "str_contains [] p = (p = [])"
| "str_contains (c # cs) p = (startswith (c # cs) p \<or> str_contains cs p)"

text \<open>\<^verbatim>\<open>s.rstrip(chars)\<close> removes the trailing characters that are in \<open>chars\<close>.\<close>

definition rstrip_chars :: "string \<Rightarrow> string \<Rightarrow> string" where
  "rstrip_chars s chars = rev (dropWhile (\<lambda>c. c \<in> set chars) (rev s))"

text \<open>The characters below 256 for which \<^verbatim>\<open>str.isspace\<close> holds.\<close>

definition isspace :: "char \<Rightarrow> bool" where
  "isspace c = (c \<in> set [CHR 0x09, CHR 0x0A, CHR 0x0B, CHR 0x0C, CHR 0x0D,
     CHR 0x1C, CHR 0x1D, CHR 0x1E, CHR 0x1F, CHR 0x20, CHR 0x85, CHR 0xA0])"

text \<open>\<^verbatim>\<open>s.strip()\<close> removes leading and trailing whitespace.\<close>

definition strip :: "string \<Rightarrow> string" where
  "strip s = rev (dropWhile isspace (rev (dropWhile isspace s)))"

text \<open>
  \<^verbatim>\<open>s.split(sep)\<close> for a separator of one character: the pieces between the
  occurrences of \<open>sep\<close>, empty pieces included; a string without \<open>sep\<close> is one piece.
\<close>

fun split :: "string \<Rightarrow> char \<Rightarrow> string list" where
  "split [] sep = [[]]"
| "split (c # cs) sep =
     (if c = sep then [] # split cs sep
      else (case split cs sep of
              [] \<Rightarrow> [[c]]
            | w # ws \<Rightarrow> (c # w) # ws))"

subsection \<open>Container operations\<close>

text \<open>\<^verbatim>\<open>key in x\<close> for a string \<open>key\<close>.\<close>

fun py_contains :: "pyval \<Rightarrow> string \<Rightarrow> exn + bool" where
  "py_contains (PDict d) key = Inr (key \<in> set (map fst d))"
| "py_contains (PList xs) key = Inr (PStr key \<in> set xs)"
| "py_contains (PStr s) key = Inr (str_contains s key)"
| "py_contains PNone key = Inl TypeError"
| "py_contains (PBool b) key = Inl TypeError"
| "py_contains (PInt i) key = Inl TypeError"
| "py_contains (PFloat f) key = Inl TypeError"

text \<open>\<^verbatim>\<open>x[key]\<close> for a string \<open>key\<close>: only a dictionary can be indexed by a string.\<close>

fun py_getitem :: "pyval \<Rightarrow> string \<Rightarrow> exn + pyval" where
  "py_getitem (PDict d) key =
     (case map_of d key of None \<Rightarrow> Inl (KeyError key) | Some v \<Rightarrow> Inr v)"
| "py_getitem (PList xs) key = Inl TypeError"
| "py_getitem (PStr s) key = Inl TypeError"
| "py_getitem PNone key = Inl TypeError"
| "py_getitem (PBool b) key = Inl TypeError"
| "py_getitem (PInt i) key = Inl TypeError"
| "py_getitem (PFloat f) key = Inl TypeError"

text \<open>\<^verbatim>\<open>for x in v\<close>: the elements of a list, the keys of a dictionary, the characters
  of a string; anything else is not iterable.\<close>

fun py_iter :: "pyval \<Rightarrow> exn + pyval list" where
  "py_iter (PList xs) = Inr xs"
| "py_iter (PDict d) = Inr (map (\<lambda>kv. PStr (fst kv)) d)"
| "py_iter (PStr s) = Inr (map (\<lambda>c. PStr [c]) s)"
| "py_iter PNone = Inl TypeError"
| "py_iter (PBool b) = Inl TypeError"
| "py_iter (PInt i) = Inl TypeError"
| "py_iter (PFloat f) = Inl TypeError"

text \<open>\<^verbatim>\<open>xs.index(x)\<close>: the first position of \<open>x\<close>, or a \<^verbatim>\<open>ValueError\<close>.\<close>

fun list_index :: "string list \<Rightarrow> string \<Rightarrow> exn + nat" where
  "list_index [] x = Inl (NotInList x)"
| "list_index (y # ys) x =
     (if y = x then Inr 0
      else (case list_index ys x of Inl e \<Rightarrow> Inl e | Inr i \<Rightarrow> Inr (Suc i)))"

section \<open>The structured scan result\<close>

record VulnerabilityInfo =
  package_name :: string
  ecosystem :: string
  version :: string
  vulnerabilities_found :: int
  critical_vulnerabilities :: "string list"
  high_vulnerabilities :: "string list"
  medium_vulnerabilities :: "string list"
  recommendations :: "string list"
  summary :: string

text \<open>\<^verbatim>\<open>model_dump\<close>: the record as a dictionary, one key per declared field, in
  declaration order.\<close>

definition model_dump :: "VulnerabilityInfo \<Rightarrow> pyval" where
  "model_dump r = PDict
     [(''package_name'', PStr (package_name r)),
      (''ecosystem'', PStr (ecosystem r)),
      (''version'', PStr (version r)),
      (''vulnerabilities_found'', PInt (vulnerabilities_found r)),
      (''critical_vulnerabilities'', PList (map PStr (critical_vulnerabilities r))),
      (''high_vulnerabilities'', PList (map PStr (high_vulnerabilities r))),
      (''medium_vulnerabilities'', PList (map PStr (medium_vulnerabilities r))),
      (''recommendations'', PList (map PStr (recommendations r))),
      (''summary'', PStr (summary r))]"

section \<open>The severity threshold\<close>

definition severity_levels :: "string list" where
  "severity_levels = [''low'', ''medium'', ''high'', ''critical'']"

text \<open>
  The loop of \<^verbatim>\<open>check_single_result_threshold\<close> over the indices
  \<^verbatim>\<open>range(threshold_index, len(severity_levels))\<close>. In \<^verbatim>\<open>key in result and result[key]\<close>
  the lookup runs only when the key is present.
\<close>

fun check_levels :: "pyval \<Rightarrow> string list \<Rightarrow> nat list \<Rightarrow> exn + bool" where
  "check_levels result levels [] = Inr False"
| "check_levels result levels (i # is) =
     (let severity = levels ! i;
          key = severity @ ''_vulnerabilities''
      in case py_contains result key of
           Inl e \<Rightarrow> Inl e
         | Inr False \<Rightarrow> check_levels result levels is
         | Inr True \<Rightarrow>
             (case py_getitem result key of
                Inl e \<Rightarrow> Inl e
              | Inr v \<Rightarrow> if truthy v then Inr True else check_levels result levels is))"

definition check_single_result_threshold :: "pyval \<Rightarrow> nat \<Rightarrow> string list \<Rightarrow> exn + bool" where
  "check_single_result_threshold result threshold_index levels =
     check_levels result levels [threshold_index ..< length levels]"

text \<open>The loop of \<^verbatim>\<open>has_vulnerabilities_above_threshold\<close> over a list of results.\<close>

fun check_results :: "pyval list \<Rightarrow> nat \<Rightarrow> string list \<Rightarrow> exn + bool" where
  "check_results [] threshold_index levels = Inr False"
| "check_results (result # results) threshold_index levels =
     (case check_single_result_threshold result threshold_index levels of
        Inl e \<Rightarrow> Inl e
      | Inr True \<Rightarrow> Inr True
      | Inr False \<Rightarrow> check_results results threshold_index levels)"

definition has_vulnerabilities_above_threshold :: "pyval \<Rightarrow> string \<Rightarrow> exn + bool" where
  "has_vulnerabilities_above_threshold output threshold =
     (case list_index severity_levels threshold of
        Inl e \<Rightarrow> Inl e
      | Inr threshold_index \<Rightarrow>
          (case output of
             PList results \<Rightarrow> check_results results threshold_index severity_levels
           | _ \<Rightarrow> check_single_result_threshold output threshold_index severity_levels))"

section \<open>The environment and the trace of effects\<close>

record OSVConfig =
  osv_server_url :: string
  anthropic_api_key :: "string option"

datatype transport = MCPServerSSE string | MCPServerStreamableHTTP string

record OSVAgent =
  config :: OSVConfig
  osv_server :: transport

text \<open>
  What a run does to the outside, in order. \<open>Stderr_exc p e\<close> is
  \<^verbatim>\<open>print(f"{p}{e}", file=sys.stderr)\<close> for an exception \<open>e\<close>. The report is rendered by
  \<^verbatim>\<open>json.dumps\<close>, \<^verbatim>\<open>format_single_result\<close> and \<^verbatim>\<open>format_batch_results\<close>, which only
  build text and raise nothing on the outputs \<^verbatim>\<open>main\<close> builds; \<open>Stdout_output\<close> and
  \<open>File_output\<close> carry what is rendered (output format, output, severity threshold)
  instead of the text. \<open>Stderr_vulnerabilities t\<close> is the line that announces
  vulnerabilities above the threshold \<open>t\<close>. Only what was printed or written is in the
  trace. Printing to stderr is taken to succeed: wherever the program prints to stderr
  the process ends with code 1, and an exception from that \<^verbatim>\<open>print\<close> ends it with code 1
  as well.
\<close>

datatype event =
    Agent_created transport
  | Agent_run string
  | Stdout string
  | Stdout_output string pyval string
  | File_output string string pyval string
  | Stderr string
  | Stderr_exc string exn
  | Stderr_vulnerabilities string

text \<open>
  What the program takes from outside itself:
  \<^item> \<open>getenv_key\<close>: \<^verbatim>\<open>os.getenv('ANTHROPIC_API_KEY')\<close>, after \<^verbatim>\<open>load_dotenv()\<close>;
  \<^item> \<open>construct\<close>: the constructors of the agent framework called by
    \<^verbatim>\<open>OSVAgent.__init__\<close> for a transport; \<open>Some m\<close> when one raises an exception with
    message \<open>m\<close>;
  \<^item> \<open>agent_run\<close>: the block
    \<^verbatim>\<open>async with self.agent.run_mcp_servers(): result = await self.agent.run(query)\<close>,
    given what happened before it: \<open>Inr\<close> the \<^verbatim>\<open>result.output\<close>, or \<open>Inl\<close> the \<^verbatim>\<open>str(e)\<close> of
    the \<^verbatim>\<open>Exception\<close> raised in the block;
  \<^item> \<open>py_str\<close>: \<^verbatim>\<open>str(v)\<close> for a number, a list or a dictionary;
  \<^item> \<open>read_json\<close>: \<^verbatim>\<open>open(path)\<close> and \<^verbatim>\<open>json.load\<close>: the decoded value, or \<open>Inl\<close> the
    message of the exception;
  \<^item> \<open>file_write\<close>: opening the file of a \<open>File_output\<close> event for writing and writing
    the rendered report to it: \<open>Some m\<close> when that raises an exception with message \<open>m\<close>
    (the file cannot be opened, the text cannot be encoded);
  \<^item> \<open>stdout_print\<close>: \<^verbatim>\<open>print\<close> of what a \<open>Stdout\<close> or \<open>Stdout_output\<close> event carries:
    \<open>Some m\<close> when that raises an exception with message \<open>m\<close> (the text cannot be
    encoded for the terminal, the pipe is closed).
\<close>

record env =
  getenv_key :: "string option"
  construct :: "transport \<Rightarrow> string option"
  agent_run :: "OSVAgent \<Rightarrow> event list \<Rightarrow> string \<Rightarrow> string + VulnerabilityInfo"
  py_str :: "pyval \<Rightarrow> string"
  read_json :: "string \<Rightarrow> string + pyval"
  file_write :: "event \<Rightarrow> string option"
  stdout_print :: "event \<Rightarrow> string option"

section \<open>The agent\<close>

text \<open>The transport chosen from the URL (the \<^verbatim>\<open>if\<close> chain of \<^verbatim>\<open>OSVAgent.__init__\<close>).\<close>

definition select_transport :: "string \<Rightarrow> transport" where
  "select_transport url =
     (if endswith url ''/sse'' then MCPServerSSE url
      else if endswith url ''/mcp'' \<or> endswith url ''/mcp/'' then
        MCPServerStreamableHTTP (rstrip_chars url ''/'' @ ''/'')
      else MCPServerSSE (url @ ''/sse''))"

definition OSVAgent_init :: "env \<Rightarrow> OSVConfig \<Rightarrow> exn + OSVAgent" where
  "OSVAgent_init env cfg =
     (let api_key = py_or (of_opt (anthropic_api_key cfg)) (of_opt (getenv_key env))
      in if \<not> truthy api_key then
           Inl (ValueError
             ''ANTHROPIC_API_KEY must be provided via config or environment variable'')
         else
           (let server = select_transport (osv_server_url cfg)
            in case construct env server of
                 Some m \<Rightarrow> Inl (Raised m)
               | None \<Rightarrow> Inr \<lparr>config = cfg, osv_server = server\<rparr>))"

text \<open>A value inside an f-string: a string as it is, anything else through \<^verbatim>\<open>str\<close>.\<close>

definition fstr :: "env \<Rightarrow> pyval \<Rightarrow> string" where
  "fstr env v =
     (case v of
        PStr s \<Rightarrow> s
      | PNone \<Rightarrow> ''None''
      | PBool b \<Rightarrow> (if b then ''True'' else ''False'')
      | _ \<Rightarrow> py_str env v)"

text \<open>
  The constructor of \<^verbatim>\<open>VulnerabilityInfo\<close> as \<^verbatim>\<open>scan_package\<close> calls it. The class
  declares \<^verbatim>\<open>package_name\<close>, \<^verbatim>\<open>ecosystem\<close> and \<^verbatim>\<open>version\<close> as \<^verbatim>\<open>str\<close>: a value of another
  type fails the validation of the model.
\<close>

definition VulnerabilityInfo_new ::
  "pyval \<Rightarrow> pyval \<Rightarrow> pyval \<Rightarrow> int \<Rightarrow> string list \<Rightarrow> string list \<Rightarrow> string list
     \<Rightarrow> string list \<Rightarrow> string \<Rightarrow> exn + VulnerabilityInfo" where
  "VulnerabilityInfo_new name eco ver found crit high med recs summ =
     (case (name, eco, ver) of
        (PStr n, PStr e, PStr v) \<Rightarrow>
          Inr \<lparr>package_name = n, ecosystem = e, version = v,
               vulnerabilities_found = found,
               critical_vulnerabilities = crit, high_vulnerabilities = high,
               medium_vulnerabilities = med, recommendations = recs, summary = summ\<rparr>
      | _ \<Rightarrow> Inl ValidationError)"

definition scan_query :: "env \<Rightarrow> pyval \<Rightarrow> pyval \<Rightarrow> pyval \<Rightarrow> string" where
  "scan_query env name eco ver =
     ''Scan '' @ fstr env name @ '' version '' @ fstr env ver @ '' from '' @ fstr env eco
       @ '' ecosystem for vulnerabilities''"

definition scan_package ::
  "env \<Rightarrow> OSVAgent \<Rightarrow> pyval \<Rightarrow> pyval \<Rightarrow> pyval \<Rightarrow> event list
     \<Rightarrow> (exn + VulnerabilityInfo) \<times> event list" where
  "scan_package env self name eco ver tr =
     (let query = scan_query env name eco ver
      in case agent_run env self tr query of
           Inr out \<Rightarrow> (Inr out, tr @ [Agent_run query])
         | Inl e \<Rightarrow>
             (VulnerabilityInfo_new name eco ver 0 [] [] []
                [''Error scanning package: '' @ e]
                (''Failed to scan '' @ fstr env name @ ''@'' @ fstr env ver @ '': '' @ e),
              tr @ [Agent_run query]))"

text \<open>The loop of \<^verbatim>\<open>scan_packages_batch\<close>, with the list \<^verbatim>\<open>results\<close> it appends to.\<close>

fun batch_loop ::
  "env \<Rightarrow> OSVAgent \<Rightarrow> pyval list \<Rightarrow> VulnerabilityInfo list \<Rightarrow> event list
     \<Rightarrow> (exn + VulnerabilityInfo list) \<times> event list" where
  "batch_loop env self [] results tr = (Inr results, tr)"
| "batch_loop env self (pkg # pkgs) results tr =
     (case py_getitem pkg ''package_name'' of
        Inl e \<Rightarrow> (Inl e, tr)
      | Inr name \<Rightarrow>
     (case py_getitem pkg ''ecosystem'' of
        Inl e \<Rightarrow> (Inl e, tr)
      | Inr eco \<Rightarrow>
     (case py_getitem pkg ''version'' of
        Inl e \<Rightarrow> (Inl e, tr)
      | Inr ver \<Rightarrow>
     (case scan_package env self name eco ver tr of
        (Inl e, tr') \<Rightarrow> (Inl e, tr')
      | (Inr result, tr') \<Rightarrow> batch_loop env self pkgs (results @ [result]) tr'))))"

definition scan_packages_batch ::
  "env \<Rightarrow> OSVAgent \<Rightarrow> pyval \<Rightarrow> event list
     \<Rightarrow> (exn + VulnerabilityInfo list) \<times> event list" where
  "scan_packages_batch env self packages tr =
     (case py_iter packages of
        Inl e \<Rightarrow> (Inl e, tr)
      | Inr pkgs \<Rightarrow> batch_loop env self pkgs [] tr)"

definition details_query :: "string \<Rightarrow> string" where
  "details_query vulnerability_id =
     ''Get detailed information about vulnerability '' @ vulnerability_id"

definition get_vulnerability_details ::
  "env \<Rightarrow> OSVAgent \<Rightarrow> string \<Rightarrow> event list \<Rightarrow> string \<times> event list" where
  "get_vulnerability_details env self vulnerability_id tr =
     (let query = details_query vulnerability_id
      in case agent_run env self tr query of
           Inr out \<Rightarrow> (summary out, tr @ [Agent_run query])
         | Inl e \<Rightarrow>
             (''Error retrieving vulnerability details: '' @ e, tr @ [Agent_run query]))"

section \<open>Loading package lists\<close>

definition required_keys :: "string list" where
  "required_keys = [''package_name'', ''ecosystem'', ''version'']"

text \<open>\<^verbatim>\<open>all(key in pkg for key in required_keys)\<close>: it stops at the first key that is
  missing.\<close>

fun all_keys_in :: "pyval \<Rightarrow> string list \<Rightarrow> exn + bool" where
  "all_keys_in pkg [] = Inr True"
| "all_keys_in pkg (key # keys) =
     (case py_contains pkg key of
        Inl e \<Rightarrow> Inl e
      | Inr False \<Rightarrow> Inr False
      | Inr True \<Rightarrow> all_keys_in pkg keys)"

text \<open>The validation loop of \<^verbatim>\<open>parse_packages_from_file\<close>.\<close>

fun validate_packages :: "pyval list \<Rightarrow> exn + unit" where
  "validate_packages [] = Inr ()"
| "validate_packages (pkg # pkgs) =
     (case all_keys_in pkg required_keys of
        Inl e \<Rightarrow> Inl e
      | Inr False \<Rightarrow>
          Inl (ValueError
            ''Package missing required keys: ['package_name', 'ecosystem', 'version']'')
      | Inr True \<Rightarrow> validate_packages pkgs)"

text \<open>The body of the \<^verbatim>\<open>try\<close> block of \<^verbatim>\<open>parse_packages_from_file\<close>.\<close>

definition load_packages :: "env \<Rightarrow> string \<Rightarrow> exn + pyval" where
  "load_packages env file_path =
     (case read_json env file_path of
        Inl m \<Rightarrow> Inl (Raised m)
      | Inr packages \<Rightarrow>
          (case py_iter packages of
             Inl e \<Rightarrow> Inl e
           | Inr pkgs \<Rightarrow>
               (case validate_packages pkgs of
                  Inl e \<Rightarrow> Inl e
                | Inr u \<Rightarrow> Inr packages)))"

definition parse_packages_from_file ::
  "env \<Rightarrow> string \<Rightarrow> event list \<Rightarrow> (abort + pyval) \<times> event list" where
  "parse_packages_from_file env file_path tr =
     (case load_packages env file_path of
        Inr packages \<Rightarrow> (Inr packages, tr)
      | Inl e \<Rightarrow> (Inl (SysExit 1), tr @ [Stderr_exc ''Error parsing packages file: '' e]))"

text \<open>The loop of \<^verbatim>\<open>parse_packages_from_args\<close>, with the list \<^verbatim>\<open>packages\<close> it appends
  to.\<close>

fun parse_entries :: "string list \<Rightarrow> pyval list \<Rightarrow> exn + pyval list" where
  "parse_entries [] packages = Inr packages"
| "parse_entries (pkg_str # rest) packages =
     (let parts = split (strip pkg_str) CHR '':''
      in if length parts \<noteq> 3 then
           Inl (ValueError (''Invalid package format: '' @ pkg_str
                  @ ''. Expected format: package:ecosystem:version''))
         else
           parse_entries rest
             (packages @ [PDict [(''package_name'', PStr (parts ! 0)),
                                 (''ecosystem'', PStr (parts ! 1)),
                                 (''version'', PStr (parts ! 2))]]))"

definition parse_packages_from_args ::
  "string \<Rightarrow> event list \<Rightarrow> (abort + pyval) \<times> event list" where
  "parse_packages_from_args packages_str tr =
     (case parse_entries (split packages_str CHR '','') [] of
        Inr packages \<Rightarrow> (Inr (PList packages), tr)
      | Inl e \<Rightarrow> (Inl (SysExit 1), tr @ [Stderr_exc ''Error parsing packages: '' e]))"

section \<open>The command line\<close>

text \<open>The namespace that \<^verbatim>\<open>parser.parse_args()\<close> returns.\<close>

record args =
  arg_package :: "string option"
  arg_ecosystem :: "string option"
  arg_version :: "string option"
  arg_packages :: "string option"
  arg_packages_file :: "string option"
  arg_vulnerability_id :: "string option"
  arg_osv_server :: string
  arg_anthropic_api_key :: "string option"
  arg_output_format :: string
  arg_output_file :: "string option"
  arg_fail_on_vulnerabilities :: bool
  arg_severity_threshold :: string

definition scan_modes :: "args \<Rightarrow> bool list" where
  "scan_modes a =
     [truthy (py_and (py_and (of_opt (arg_package a)) (of_opt (arg_ecosystem a)))
                (of_opt (arg_version a))),
      truthy (of_opt (arg_packages a)),
      truthy (of_opt (arg_packages_file a)),
      truthy (of_opt (arg_vulnerability_id a))]"

text \<open>\<^verbatim>\<open>sum\<close> of a list of booleans counts the true ones.\<close>

definition py_sum :: "bool list \<Rightarrow> nat" where
  "py_sum bs = sum_list (map of_bool bs)"

text \<open>The string of an \<^verbatim>\<open>Optional[str]\<close> that passes an \<^verbatim>\<open>if\<close> test: it is not \<^verbatim>\<open>None\<close>
  and not empty.\<close>

definition passes :: "string option \<Rightarrow> string option" where
  "passes x = (case x of None \<Rightarrow> None | Some s \<Rightarrow> if s \<noteq> [] then Some s else None)"

text \<open>A batch scan of the packages that a parser returned, when it returned.\<close>

definition batch_output ::
  "env \<Rightarrow> OSVAgent \<Rightarrow> (abort + pyval) \<times> event list \<Rightarrow> (abort + pyval) \<times> event list" where
  "batch_output env agent parsed =
     (case parsed of
        (Inl ab, tr) \<Rightarrow> (Inl ab, tr)
      | (Inr packages, tr) \<Rightarrow>
          (case scan_packages_batch env agent packages tr of
             (Inl e, tr') \<Rightarrow> (Inl (Exc e), tr')
           | (Inr results, tr') \<Rightarrow> (Inr (PList (map model_dump results)), tr')))"

text \<open>
  The \<^verbatim>\<open>if\<close>/\<^verbatim>\<open>elif\<close> chain of \<^verbatim>\<open>main\<close> that computes \<^verbatim>\<open>output\<close>. When no branch is taken
  the name \<^verbatim>\<open>output\<close> is unbound at its first use.
\<close>

definition scan_output ::
  "env \<Rightarrow> args \<Rightarrow> OSVAgent \<Rightarrow> event list \<Rightarrow> (abort + pyval) \<times> event list" where
  "scan_output env a agent tr =
     (case passes (arg_vulnerability_id a) of
        Some vid \<Rightarrow>
          (case get_vulnerability_details env agent vid tr of
             (result, tr') \<Rightarrow>
               (Inr (PDict [(''vulnerability_id'', PStr vid), (''details'', PStr result)]),
                tr'))
      | None \<Rightarrow>
     (case passes (arg_package a) of
        Some p \<Rightarrow>
          (case scan_package env agent (PStr p) (of_opt (arg_ecosystem a))
                  (of_opt (arg_version a)) tr of
             (Inl e, tr') \<Rightarrow> (Inl (Exc e), tr')
           | (Inr result, tr') \<Rightarrow> (Inr (model_dump result), tr'))
      | None \<Rightarrow>
     (case passes (arg_packages a) of
        Some ps \<Rightarrow> batch_output env agent (parse_packages_from_args ps tr)
      | None \<Rightarrow>
     (case passes (arg_packages_file a) of
        Some f \<Rightarrow> batch_output env agent (parse_packages_from_file env f tr)
      | None \<Rightarrow> (Inl (Exc UnboundLocalError), tr)))))"

text \<open>
  Rendering and writing the report: to the file of \<^verbatim>\<open>--output-file\<close>, followed by a
  notice on stdout, or to stdout. Each of the three can raise.
\<close>

definition write_output ::
  "env \<Rightarrow> args \<Rightarrow> pyval \<Rightarrow> event list \<Rightarrow> (abort + unit) \<times> event list" where
  "write_output env a output tr =
     (case passes (arg_output_file a) of
        Some path \<Rightarrow>
          (let written = File_output path (arg_output_format a) output
                           (arg_severity_threshold a);
               notice = Stdout (''Results written to '' @ path)
           in case file_write env written of
                Some m \<Rightarrow> (Inl (Exc (Raised m)), tr)
              | None \<Rightarrow>
                  (case stdout_print env notice of
                     Some m \<Rightarrow> (Inl (Exc (Raised m)), tr @ [written])
                   | None \<Rightarrow> (Inr (), tr @ [written, notice])))
      | None \<Rightarrow>
          (let report = Stdout_output (arg_output_format a) output
                          (arg_severity_threshold a)
           in case stdout_print env report of
                Some m \<Rightarrow> (Inl (Exc (Raised m)), tr)
              | None \<Rightarrow> (Inr (), tr @ [report])))"

text \<open>The exit-code policy: the last statement of the \<^verbatim>\<open>try\<close> block. The threshold
  is looked at only when \<^verbatim>\<open>--fail-on-vulnerabilities\<close> is set.\<close>

definition fail_policy ::
  "args \<Rightarrow> pyval \<Rightarrow> event list \<Rightarrow> (abort + unit) \<times> event list" where
  "fail_policy a output tr =
     (if arg_fail_on_vulnerabilities a then
        (case has_vulnerabilities_above_threshold output (arg_severity_threshold a) of
           Inl e \<Rightarrow> (Inl (Exc e), tr)
         | Inr True \<Rightarrow>
             (Inl (SysExit 1), tr @ [Stderr_vulnerabilities (arg_severity_threshold a)])
         | Inr False \<Rightarrow> (Inr (), tr))
      else (Inr (), tr))"

text \<open>The \<^verbatim>\<open>try\<close> block of \<^verbatim>\<open>main\<close>.\<close>

definition main_try :: "env \<Rightarrow> args \<Rightarrow> OSVConfig \<Rightarrow> (abort + unit) \<times> event list" where
  "main_try env a cfg =
     (case OSVAgent_init env cfg of
        Inl e \<Rightarrow> (Inl (Exc e), [])
      | Inr agent \<Rightarrow>
          (case scan_output env a agent [Agent_created (osv_server agent)] of
             (Inl ab, tr) \<Rightarrow> (Inl ab, tr)
           | (Inr output, tr) \<Rightarrow>
               (case write_output env a output tr of
                  (Inl ab, tr') \<Rightarrow> (Inl ab, tr')
                | (Inr u, tr') \<Rightarrow> fail_policy a output tr')))"

text \<open>
  \<^verbatim>\<open>main\<close>: the exit code of the process and the trace of the run. A run that returns
  from \<^verbatim>\<open>main\<close> exits with code 0; \<^verbatim>\<open>sys.exit(n)\<close> exits with \<open>n\<close>, from inside the \<^verbatim>\<open>try\<close>
  block too; an \<^verbatim>\<open>Exception\<close> of the \<^verbatim>\<open>try\<close> block is printed and exits with 1.
\<close>

definition main :: "env \<Rightarrow> args \<Rightarrow> nat \<times> event list" where
  "main env a =
     (if py_sum (scan_modes a) \<noteq> 1 then
        (1, [Stderr (''Error: Specify exactly one of: single package, packages list, ''
                     @ ''packages file, or vulnerability ID'')])
      else
        (let cfg = \<lparr>osv_server_url = arg_osv_server a,
                    anthropic_api_key = arg_anthropic_api_key a\<rparr>
         in case main_try env a cfg of
              (Inr u, tr) \<Rightarrow> (0, tr)
            | (Inl (SysExit n), tr) \<Rightarrow> (n, tr)
            | (Inl (Exc e), tr) \<Rightarrow> (1, tr @ [Stderr_exc ''Error: '' e])))"

section \<open>The statements of the specification\<close>

text \<open>
  The specification's reading of the threshold test, in its own words: some result
  holds a non-empty list under the key \<^verbatim>\<open><s>_vulnerabilities\<close> of a severity \<open>s\<close> whose
  position in the ordered list is at or after the position of the threshold.
\<close>

definition nonempty_list_under :: "pyval \<Rightarrow> string \<Rightarrow> bool" where
  "nonempty_list_under result key =
     (case result of
        PDict d \<Rightarrow> (case map_of d key of Some (PList (x # xs)) \<Rightarrow> True | _ \<Rightarrow> False)
      | _ \<Rightarrow> False)"

definition results_of :: "pyval \<Rightarrow> pyval list" where
  "results_of output = (case output of PList results \<Rightarrow> results | _ \<Rightarrow> [output])"

definition spec_above_threshold :: "pyval \<Rightarrow> string \<Rightarrow> bool" where
  "spec_above_threshold output t =
     (\<exists>result \<in> set (results_of output).
        \<exists>i \<in> {..<length severity_levels}. \<exists>j \<in> {..i}.
          severity_levels ! j = t \<and>
          nonempty_list_under result (severity_levels ! i @ ''_vulnerabilities''))"

text \<open>A package dictionary: the three fields are present and are strings.\<close>

definition package_fields :: "pyval \<Rightarrow> (string \<times> string \<times> string) option" where
  "package_fields pkg =
     (case pkg of
        PDict d \<Rightarrow>
          (case (map_of d ''package_name'', map_of d ''ecosystem'', map_of d ''version'') of
             (Some (PStr n), Some (PStr e), Some (PStr v)) \<Rightarrow> Some (n, e, v)
           | _ \<Rightarrow> None)
      | _ \<Rightarrow> None)"

text \<open>The agent's query for a package given by its three fields.\<close>

definition query_for :: "env \<Rightarrow> string \<times> string \<times> string \<Rightarrow> string" where
  "query_for env t = (case t of (n, e, v) \<Rightarrow> scan_query env (PStr n) (PStr e) (PStr v))"

section \<open>Sample runs\<close>

definition sample_config :: OSVConfig where
  "sample_config = \<lparr>osv_server_url = ''http://localhost:8080'', anthropic_api_key = Some ''sk''\<rparr>"

definition sample_agent :: OSVAgent where
  "sample_agent = \<lparr>config = sample_config, osv_server = MCPServerSSE ''http://localhost:8080/sse''\<rparr>"

definition sample_finding :: VulnerabilityInfo where
  "sample_finding =
     \<lparr>package_name = ''requests'', ecosystem = ''PyPI'', version = ''2.25.0'',
      vulnerabilities_found = 1,
      critical_vulnerabilities = [], high_vulnerabilities = [''GHSA-9hjg-9r4m-mvj7''],
      medium_vulnerabilities = [], recommendations = [''Upgrade''],
      summary = ''One high vulnerability''\<rparr>"

text \<open>Both environments hold the API key. An environment whose agent never answers and
  that has no packages file, and one whose agent always reports \<open>sample_finding\<close> and whose packages file holds one package
  without ecosystem and version.\<close>

definition failing_env :: env where
  "failing_env =
     \<lparr>getenv_key = Some ''sk'',
      construct = (\<lambda>t. None),
      agent_run = (\<lambda>self tr query. Inl ''connection refused''),
      py_str = (\<lambda>v. ''?''),
      read_json = (\<lambda>path. Inl ''No such file or directory''),
      file_write = (\<lambda>ev. None),
      stdout_print = (\<lambda>ev. None)\<rparr>"

definition finding_env :: env where
  "finding_env =
     \<lparr>getenv_key = Some ''sk'',
      construct = (\<lambda>t. None),
      agent_run = (\<lambda>self tr query. Inr sample_finding),
      py_str = (\<lambda>v. ''?''),
      read_json = (\<lambda>path. Inr (PList [PDict [(''package_name'', PStr ''lodash'')]])),
      file_write = (\<lambda>ev. None),
      stdout_print = (\<lambda>ev. None)\<rparr>"

text \<open>\<^verbatim>\<open>--package requests --ecosystem PyPI --version 2.25.0 --anthropic-api-key sk
  --fail-on-vulnerabilities\<close>\<close>

definition sample_args :: args where
  "sample_args =
     \<lparr>arg_package = Some ''requests'', arg_ecosystem = Some ''PyPI'',
      arg_version = Some ''2.25.0'', arg_packages = None, arg_packages_file = None,
      arg_vulnerability_id = None, arg_osv_server = ''http://localhost:8080'',
      arg_anthropic_api_key = Some ''sk'', arg_output_format = ''text'',
      arg_output_file = None, arg_fail_on_vulnerabilities = True,
      arg_severity_threshold = ''medium''\<rparr>"

text \<open>The same two environments with a report file that cannot be written.\<close>

definition unwritable_env :: env where
  "unwritable_env = finding_env\<lparr>file_write := (\<lambda>ev. Some ''Permission denied'')\<rparr>"

definition unwritable_failing_env :: env where
  "unwritable_failing_env = failing_env\<lparr>file_write := (\<lambda>ev. Some ''Permission denied'')\<rparr>"

text \<open>The sample command line with \<^verbatim>\<open>--output-file /report.txt --severity-threshold
  critical\<close>.\<close>

definition report_args :: args where
  "report_args =
     sample_args\<lparr>arg_output_file := Some ''/report.txt'',
                 arg_severity_threshold := ''critical''\<rparr>"

text \<open>\<^verbatim>\<open>--package requests --packages-file packages.json --anthropic-api-key sk
  --fail-on-vulnerabilities\<close>: one scan mode is counted, the packages file.\<close>

definition two_flag_args :: args where
  "two_flag_args =
     sample_args\<lparr>arg_ecosystem := None, arg_version := None,
                 arg_packages_file := Some ''packages.json''\<rparr>"

text \<open>The packages file
  \<^verbatim>\<open>[{"package_name": "requests", "ecosystem": "PyPI", "version": null}]\<close>.\<close>

definition null_version_packages :: pyval where
  "null_version_packages =
     PList [PDict [(''package_name'', PStr ''requests''), (''ecosystem'', PStr ''PyPI''),
                   (''version'', PNone)]]"

text \<open>An environment whose agent never answers and whose packages file is
  \<open>null_version_packages\<close>, and the command line
  \<^verbatim>\<open>--packages-file packages.json --anthropic-api-key sk --fail-on-vulnerabilities\<close>.\<close>

definition null_version_env :: env where
  "null_version_env = failing_env\<lparr>read_json := (\<lambda>path. Inr null_version_packages)\<rparr>"

definition file_args :: args where
  "file_args =
     sample_args\<lparr>arg_package := None, arg_ecosystem := None, arg_version := None,
                 arg_packages_file := Some ''packages.json''\<rparr>"

definition sample_packages :: "pyval list" where
  "sample_packages =
     [PDict [(''package_name'', PStr ''requests''), (''ecosystem'', PStr ''PyPI''),
             (''version'', PStr ''2.25.0'')],
      PDict [(''package_name'', PStr ''lodash''), (''ecosystem'', PStr ''npm''),
             (''version'', PStr ''4.17.20'')]]"

section \<open>Facts about the string operations\<close>

lemma endswith_iff: "endswith s p \<longleftrightarrow> (\<exists>w. s = w @ p)"
proof
  assume "endswith s p"
  then have "s = take (length s - length p) s @ p"
    unfolding endswith_def by (metis append_take_drop_id)
  then show "\<exists>w. s = w @ p" ..
next
  assume "\<exists>w. s = w @ p"
  then show "endswith s p" by (auto simp: endswith_def)
qed

lemma rstrip_mcp: "rstrip_chars (w @ ''/mcp'') ''/'' = w @ ''/mcp''"
  by (simp add: rstrip_chars_def)

lemma rstrip_mcp_slash: "rstrip_chars (w @ ''/mcp/'') ''/'' = w @ ''/mcp''"
  by (simp add: rstrip_chars_def)

lemma mcp_not_sse:
  "endswith url ''/mcp'' \<or> endswith url ''/mcp/'' \<Longrightarrow> \<not> endswith url ''/sse''"
  by (auto simp: endswith_iff)

section \<open>Properties of the agent\<close>

lemma select_transport_cases:
  "(endswith url ''/sse'' \<longrightarrow> select_transport url = MCPServerSSE url) \<and>
   (endswith url ''/mcp'' \<longrightarrow> select_transport url = MCPServerStreamableHTTP (url @ ''/'')) \<and>
   (endswith url ''/mcp/'' \<longrightarrow> select_transport url = MCPServerStreamableHTTP url) \<and>
   (\<not> endswith url ''/sse'' \<and> \<not> endswith url ''/mcp'' \<and> \<not> endswith url ''/mcp/'' \<longrightarrow>
      select_transport url = MCPServerSSE (url @ ''/sse''))"
proof (intro conjI impI)
  assume "endswith url ''/sse''"
  then show "select_transport url = MCPServerSSE url"
    by (simp add: select_transport_def)
next
  assume a: "endswith url ''/mcp''"
  then obtain w where "url = w @ ''/mcp''" by (auto simp: endswith_iff)
  with a mcp_not_sse[of url]
  show "select_transport url = MCPServerStreamableHTTP (url @ ''/'')"
    by (simp add: select_transport_def rstrip_mcp)
next
  assume a: "endswith url ''/mcp/''"
  then obtain w where "url = w @ ''/mcp/''" by (auto simp: endswith_iff)
  with a mcp_not_sse[of url] show "select_transport url = MCPServerStreamableHTTP url"
    using rstrip_mcp_slash[of w] by (simp add: select_transport_def)
next
  assume "\<not> endswith url ''/sse'' \<and> \<not> endswith url ''/mcp'' \<and> \<not> endswith url ''/mcp/''"
  then show "select_transport url = MCPServerSSE (url @ ''/sse'')"
    by (simp add: select_transport_def)
qed

lemma OSVAgent_init_server:
  "OSVAgent_init env cfg = Inr agent \<Longrightarrow>
     osv_server agent = select_transport (osv_server_url cfg)"
  by (auto simp: OSVAgent_init_def Let_def split: if_splits option.splits)

text \<open>
  C4. Whenever \<^verbatim>\<open>OSVAgent.__init__\<close> returns, the transport it has built follows the
  suffix of the configured URL: \<^verbatim>\<open>/sse\<close> gives an SSE transport on the URL as it is;
  \<^verbatim>\<open>/mcp\<close> and \<^verbatim>\<open>/mcp/\<close> give a streamable-HTTP transport on the URL with one \<^verbatim>\<open>/\<close> at
  its end (added to \<^verbatim>\<open>/mcp\<close>, kept on \<^verbatim>\<open>/mcp/\<close>); any other URL gives an SSE transport
  on the URL followed by \<^verbatim>\<open>/sse\<close>.
\<close>

theorem transport_by_url_suffix:
  assumes "OSVAgent_init env cfg = Inr agent"
  shows "(endswith (osv_server_url cfg) ''/sse'' \<longrightarrow>
            osv_server agent = MCPServerSSE (osv_server_url cfg)) \<and>
         (endswith (osv_server_url cfg) ''/mcp'' \<longrightarrow>
            osv_server agent = MCPServerStreamableHTTP (osv_server_url cfg @ ''/'')) \<and>
         (endswith (osv_server_url cfg) ''/mcp/'' \<longrightarrow>
            osv_server agent = MCPServerStreamableHTTP (osv_server_url cfg)) \<and>
         (\<not> endswith (osv_server_url cfg) ''/sse'' \<and> \<not> endswith (osv_server_url cfg) ''/mcp''
            \<and> \<not> endswith (osv_server_url cfg) ''/mcp/'' \<longrightarrow>
            osv_server agent = MCPServerSSE (osv_server_url cfg @ ''/sse''))"
  using OSVAgent_init_server[OF assms] select_transport_cases[of "osv_server_url cfg"]
  by simp

theorem transport_by_url_suffix_witness:
  "(\<exists>agent. OSVAgent_init failing_env (sample_config\<lparr>osv_server_url := ''http://h/sse''\<rparr>)
              = Inr agent \<and> osv_server agent = MCPServerSSE ''http://h/sse'') \<and>
   (\<exists>agent. OSVAgent_init failing_env (sample_config\<lparr>osv_server_url := ''http://h/mcp''\<rparr>)
              = Inr agent \<and> osv_server agent = MCPServerStreamableHTTP ''http://h/mcp/'') \<and>
   (\<exists>agent. OSVAgent_init failing_env (sample_config\<lparr>osv_server_url := ''http://h/mcp/''\<rparr>)
              = Inr agent \<and> osv_server agent = MCPServerStreamableHTTP ''http://h/mcp/'') \<and>
   (\<exists>agent. OSVAgent_init failing_env (sample_config\<lparr>osv_server_url := ''http://h''\<rparr>)
              = Inr agent \<and> osv_server agent = MCPServerSSE ''http://h/sse'')"
proof -
  have init: "\<And>url. OSVAgent_init failing_env (sample_config\<lparr>osv_server_url := url\<rparr>) =
      Inr \<lparr>config = sample_config\<lparr>osv_server_url := url\<rparr>, osv_server = select_transport url\<rparr>"
    by (simp add: OSVAgent_init_def failing_env_def sample_config_def py_or_def)
  have e1: "endswith ''http://h/sse'' ''/sse''" by (simp add: endswith_def)
  have e2: "endswith ''http://h/mcp'' ''/mcp''" by (simp add: endswith_def)
  have e3: "endswith ''http://h/mcp/'' ''/mcp/''" by (simp add: endswith_def)
  have e4: "\<not> endswith ''http://h'' ''/sse''" "\<not> endswith ''http://h'' ''/mcp''"
    "\<not> endswith ''http://h'' ''/mcp/''" by (simp_all add: endswith_def)
  have "select_transport ''http://h/sse'' = MCPServerSSE ''http://h/sse''"
    using transport_by_url_suffix[OF init[of "''http://h/sse''"]] e1 by simp
  moreover have "select_transport ''http://h/mcp'' = MCPServerStreamableHTTP ''http://h/mcp/''"
    using transport_by_url_suffix[OF init[of "''http://h/mcp''"]] e2 by simp
  moreover have "select_transport ''http://h/mcp/'' = MCPServerStreamableHTTP ''http://h/mcp/''"
    using transport_by_url_suffix[OF init[of "''http://h/mcp/''"]] e3 by simp
  moreover have "select_transport ''http://h'' = MCPServerSSE ''http://h/sse''"
    using transport_by_url_suffix[OF init[of "''http://h''"]] e4 by simp
  ultimately show ?thesis by (simp add: init)
qed

text \<open>
  C10. \<^verbatim>\<open>OSVAgent.__init__\<close> raises its \<^verbatim>\<open>ValueError\<close> exactly when the key of the
  configuration is \<^verbatim>\<open>None\<close> or empty and the environment variable is unset or empty. With
  a key from either source that error does not occur.
\<close>

theorem api_key_required:
  "OSVAgent_init env cfg =
      Inl (ValueError ''ANTHROPIC_API_KEY must be provided via config or environment variable'')
   \<longleftrightarrow> (anthropic_api_key cfg = None \<or> anthropic_api_key cfg = Some [])
       \<and> (getenv_key env = None \<or> getenv_key env = Some [])"
  by (cases "anthropic_api_key cfg"; cases "getenv_key env")
     (auto simp: OSVAgent_init_def py_or_def Let_def split: option.splits)

lemma scan_query_str:
  "scan_query env (PStr n) (PStr e) (PStr v) =
     ''Scan '' @ n @ '' version '' @ v @ '' from '' @ e @ '' ecosystem for vulnerabilities''"
  by (simp add: scan_query_def fstr_def)

lemma scan_package_str:
  "scan_package env self (PStr n) (PStr e) (PStr v) tr =
     (Inr (case agent_run env self tr (scan_query env (PStr n) (PStr e) (PStr v)) of
             Inr out \<Rightarrow> out
           | Inl m \<Rightarrow>
               \<lparr>package_name = n, ecosystem = e, version = v,
                vulnerabilities_found = 0,
                critical_vulnerabilities = [], high_vulnerabilities = [],
                medium_vulnerabilities = [],
                recommendations = [''Error scanning package: '' @ m],
                summary = ''Failed to scan '' @ n @ ''@'' @ v @ '': '' @ m\<rparr>),
      tr @ [Agent_run (scan_query env (PStr n) (PStr e) (PStr v))])"
  by (simp add: scan_package_def VulnerabilityInfo_new_def fstr_def split: sum.splits)

text \<open>
  C2. On strings \<^verbatim>\<open>scan_package\<close> does what is asked of it: when running the agent raises
  it returns the default error record, and it raises nothing (\<open>scan_package_str\<close>). It
  does not for every input it receives. For
  \<^verbatim>\<open>--package requests --packages-file packages.json\<close> one scan mode is counted and \<^verbatim>\<open>main\<close>
  calls \<^verbatim>\<open>scan_package\<close> with \<^verbatim>\<open>None\<close> as ecosystem and version. When running the agent then
  raises, the \<^verbatim>\<open>except\<close> clause cannot build the error record, whose fields are declared
  \<^verbatim>\<open>str\<close>: \<^verbatim>\<open>scan_package\<close> raises \<^verbatim>\<open>ValidationError\<close> and the run ends with exit code 1.
\<close>

theorem scan_package_error_record_rejected:
  "agent_run failing_env sample_agent [Agent_created (osv_server sample_agent)]
       (scan_query failing_env (PStr ''requests'') PNone PNone)
     = Inl ''connection refused''
   \<and> scan_package failing_env sample_agent (PStr ''requests'') PNone PNone
         [Agent_created (osv_server sample_agent)]
     = (Inl ValidationError,
        [Agent_created (osv_server sample_agent),
         Agent_run ''Scan requests version None from None ecosystem for vulnerabilities''])
   \<and> py_sum (scan_modes two_flag_args) = 1
   \<and> main failing_env two_flag_args
     = (1, [Agent_created (MCPServerSSE ''http://localhost:8080/sse''),
            Agent_run ''Scan requests version None from None ecosystem for vulnerabilities'',
            Stderr_exc ''Error: '' ValidationError])"
proof -
  have run: "agent_run failing_env sample_agent [Agent_created (osv_server sample_agent)]
       (scan_query failing_env (PStr ''requests'') PNone PNone)
     = Inl ''connection refused''"
    by (simp add: failing_env_def)
  have query: "\<And>env. scan_query env (PStr ''requests'') PNone PNone =
      ''Scan requests version None from None ecosystem for vulnerabilities''"
    by (simp add: scan_query_def fstr_def)
  have scan: "scan_package failing_env sample_agent (PStr ''requests'') PNone PNone
         [Agent_created (osv_server sample_agent)]
     = (Inl ValidationError,
        [Agent_created (osv_server sample_agent),
         Agent_run ''Scan requests version None from None ecosystem for vulnerabilities''])"
    using run by (simp add: scan_package_def query VulnerabilityInfo_new_def)
  have modes: "py_sum (scan_modes two_flag_args) = 1"
    by (simp add: py_sum_def scan_modes_def two_flag_args_def sample_args_def py_and_def)
  have init: "OSVAgent_init failing_env \<lparr>osv_server_url = arg_osv_server two_flag_args,
           anthropic_api_key = arg_anthropic_api_key two_flag_args\<rparr> = Inr sample_agent"
    by (simp add: OSVAgent_init_def failing_env_def two_flag_args_def sample_args_def
          sample_agent_def sample_config_def py_or_def select_transport_def endswith_def)
  have out: "scan_output failing_env two_flag_args sample_agent
         [Agent_created (osv_server sample_agent)]
     = (Inl (Exc ValidationError),
        [Agent_created (osv_server sample_agent),
         Agent_run ''Scan requests version None from None ecosystem for vulnerabilities''])"
    using scan by (simp add: scan_output_def passes_def two_flag_args_def sample_args_def)
  have "main failing_env two_flag_args
     = (1, [Agent_created (osv_server sample_agent),
            Agent_run ''Scan requests version None from None ecosystem for vulnerabilities'',
            Stderr_exc ''Error: '' ValidationError])"
    using modes init out by (simp add: main_def main_try_def)
  then have "main failing_env two_flag_args
     = (1, [Agent_created (MCPServerSSE ''http://localhost:8080/sse''),
            Agent_run ''Scan requests version None from None ecosystem for vulnerabilities'',
            Stderr_exc ''Error: '' ValidationError])"
    by (simp add: sample_agent_def)
  with run scan modes show ?thesis by simp
qed

text \<open>
  C7. \<^verbatim>\<open>get_vulnerability_details\<close> asks the agent one query, which names the
  vulnerability, and returns a string: the summary of the structured result, or, when
  running the agent raises an exception with message \<open>m\<close>, the text
  \<^verbatim>\<open>Error retrieving vulnerability details: \<close> followed by \<open>m\<close>. It raises nothing.
\<close>

theorem details_returns_string:
  "get_vulnerability_details env self vid tr =
     ((case agent_run env self tr (''Get detailed information about vulnerability '' @ vid) of
         Inr out \<Rightarrow> summary out
       | Inl m \<Rightarrow> ''Error retrieving vulnerability details: '' @ m),
      tr @ [Agent_run (''Get detailed information about vulnerability '' @ vid)])"
  by (simp add: get_vulnerability_details_def details_query_def split: sum.splits)

section \<open>Properties of the severity threshold\<close>

lemma upt_4:
  "[i..<4] = (if i = 0 then [0, 1, 2, 3] else if i = 1 then [1, 2, 3]
              else if i = 2 then [2, 3] else if i = 3 then [3] else [])"
  by (auto simp: upt_rec[of i 4] upt_rec[of "Suc 0" 4] upt_rec[of 2 4] upt_rec[of 3 4]
        numeral_eq_Suc)

lemma list_index_levels:
  "list_index severity_levels ''low'' = Inr 0"
  "list_index severity_levels ''medium'' = Inr 1"
  "list_index severity_levels ''high'' = Inr 2"
  "list_index severity_levels ''critical'' = Inr 3"
  by (simp_all add: severity_levels_def)

lemma check_single_model_dump:
  "check_single_result_threshold (model_dump r) i severity_levels =
     Inr ((i \<le> 1 \<and> medium_vulnerabilities r \<noteq> []) \<or> (i \<le> 2 \<and> high_vulnerabilities r \<noteq> [])
          \<or> (i \<le> 3 \<and> critical_vulnerabilities r \<noteq> []))"
  unfolding check_single_result_threshold_def
  by (simp add: severity_levels_def upt_4 model_dump_def)

lemma check_results_model_dump:
  "check_results (map model_dump rs) i severity_levels =
     Inr (\<exists>r\<in>set rs. (i \<le> 1 \<and> medium_vulnerabilities r \<noteq> [])
            \<or> (i \<le> 2 \<and> high_vulnerabilities r \<noteq> [])
            \<or> (i \<le> 3 \<and> critical_vulnerabilities r \<noteq> []))"
  by (induction rs) (auto simp: check_single_model_dump split: bool.splits)

lemma has_vulnerabilities_model_dump:
  "has_vulnerabilities_above_threshold (model_dump r) t =
     (case list_index severity_levels t of
        Inl e \<Rightarrow> Inl e
      | Inr i \<Rightarrow> check_single_result_threshold (model_dump r) i severity_levels)"
  unfolding has_vulnerabilities_above_threshold_def
  by (simp add: model_dump_def split: sum.splits)

text \<open>
  C8. A dictionary made by \<^verbatim>\<open>model_dump\<close> has no key \<^verbatim>\<open>low_vulnerabilities\<close>, and on such
  a dictionary, or on a list of them, the threshold \<^verbatim>\<open>low\<close> gives the same answer as the
  threshold \<^verbatim>\<open>medium\<close>.
\<close>

theorem low_threshold_same_as_medium:
  "py_contains (model_dump r) ''low_vulnerabilities'' = Inr False \<and>
   has_vulnerabilities_above_threshold (model_dump r) ''low'' =
     has_vulnerabilities_above_threshold (model_dump r) ''medium'' \<and>
   has_vulnerabilities_above_threshold (PList (map model_dump rs)) ''low'' =
     has_vulnerabilities_above_threshold (PList (map model_dump rs)) ''medium''"
proof -
  have "py_contains (model_dump r) ''low_vulnerabilities'' = Inr False"
    by (simp add: model_dump_def)
  moreover have "has_vulnerabilities_above_threshold (model_dump r) ''low'' =
     has_vulnerabilities_above_threshold (model_dump r) ''medium''"
    by (simp add: has_vulnerabilities_model_dump list_index_levels check_single_model_dump)
  moreover have "has_vulnerabilities_above_threshold (PList (map model_dump rs)) ''low'' =
     has_vulnerabilities_above_threshold (PList (map model_dump rs)) ''medium''"
    by (simp add: has_vulnerabilities_above_threshold_def list_index_levels
          check_results_model_dump)
  ultimately show ?thesis by simp
qed

section \<open>Validation of the scan mode\<close>

lemma truthy_of_opt: "truthy (of_opt x) \<longleftrightarrow> (\<exists>s. x = Some s \<and> s \<noteq> [])"
  by (cases x) auto

lemma truthy_py_and: "truthy (py_and a b) \<longleftrightarrow> truthy a \<and> truthy b"
  by (simp add: py_and_def)

text \<open>
  C3. The four scan modes that \<^verbatim>\<open>main\<close> counts are: \<^verbatim>\<open>--package\<close>, \<^verbatim>\<open>--ecosystem\<close> and
  \<^verbatim>\<open>--version\<close> all given and not empty; \<^verbatim>\<open>--packages\<close>; \<^verbatim>\<open>--packages-file\<close>;
  \<^verbatim>\<open>--vulnerability-id\<close>. When the number of enabled modes is not 1, the run is one line
  on stderr and the exit code 1, in every environment: no agent is built and the agent
  is asked nothing.
\<close>

theorem exactly_one_scan_mode:
  "scan_modes a =
     [(\<exists>p. arg_package a = Some p \<and> p \<noteq> []) \<and> (\<exists>e. arg_ecosystem a = Some e \<and> e \<noteq> [])
        \<and> (\<exists>v. arg_version a = Some v \<and> v \<noteq> []),
      \<exists>s. arg_packages a = Some s \<and> s \<noteq> [],
      \<exists>s. arg_packages_file a = Some s \<and> s \<noteq> [],
      \<exists>s. arg_vulnerability_id a = Some s \<and> s \<noteq> []]
   \<and> py_sum (scan_modes a) = length (filter (\<lambda>b. b) (scan_modes a))
   \<and> (length (filter (\<lambda>b. b) (scan_modes a)) \<noteq> 1 \<longrightarrow>
        main env a =
          (1, [Stderr (''Error: Specify exactly one of: single package, packages list, ''
                       @ ''packages file, or vulnerability ID'')]))"
proof -
  have count: "\<And>bs. py_sum bs = length (filter (\<lambda>b. b) bs)"
  proof -
    fix bs show "py_sum bs = length (filter (\<lambda>b. b) bs)"
      unfolding py_sum_def by (induction bs) auto
  qed
  have "scan_modes a =
     [(\<exists>p. arg_package a = Some p \<and> p \<noteq> []) \<and> (\<exists>e. arg_ecosystem a = Some e \<and> e \<noteq> [])
        \<and> (\<exists>v. arg_version a = Some v \<and> v \<noteq> []),
      \<exists>s. arg_packages a = Some s \<and> s \<noteq> [],
      \<exists>s. arg_packages_file a = Some s \<and> s \<noteq> [],
      \<exists>s. arg_vulnerability_id a = Some s \<and> s \<noteq> []]"
    by (simp add: scan_modes_def truthy_py_and truthy_of_opt)
  moreover have "length (filter (\<lambda>b. b) (scan_modes a)) \<noteq> 1 \<longrightarrow>
        main env a =
          (1, [Stderr (''Error: Specify exactly one of: single package, packages list, ''
                       @ ''packages file, or vulnerability ID'')])"
    by (simp add: main_def count)
  ultimately show ?thesis using count by simp
qed

text \<open>\<^verbatim>\<open>--packages requests:PyPI:2.25.0 --vulnerability-id GHSA-9hjg-9r4m-mvj7\<close> names
  two modes.\<close>

theorem exactly_one_scan_mode_witness:
  "length (filter (\<lambda>b. b)
     (scan_modes (sample_args\<lparr>arg_package := None, arg_packages := Some ''requests:PyPI:2.25.0'',
                    arg_vulnerability_id := Some ''GHSA-9hjg-9r4m-mvj7''\<rparr>))) = 2
   \<and> main finding_env
       (sample_args\<lparr>arg_package := None, arg_packages := Some ''requests:PyPI:2.25.0'',
                    arg_vulnerability_id := Some ''GHSA-9hjg-9r4m-mvj7''\<rparr>) =
       (1, [Stderr ''Error: Specify exactly one of: single package, packages list, packages file, or vulnerability ID''])"
proof -
  have two: "length (filter (\<lambda>b. b)
     (scan_modes (sample_args\<lparr>arg_package := None, arg_packages := Some ''requests:PyPI:2.25.0'',
                    arg_vulnerability_id := Some ''GHSA-9hjg-9r4m-mvj7''\<rparr>))) = 2"
    by (simp add: scan_modes_def sample_args_def py_and_def)
  with exactly_one_scan_mode[of "sample_args\<lparr>arg_package := None,
      arg_packages := Some ''requests:PyPI:2.25.0'',
      arg_vulnerability_id := Some ''GHSA-9hjg-9r4m-mvj7''\<rparr>" finding_env]
  show ?thesis by simp
qed

section \<open>Validation of package lists\<close>

lemma parse_entries_ok:
  "\<forall>entry\<in>set entries. length (split (strip entry) CHR '':'') = 3 \<Longrightarrow>
   parse_entries entries acc =
     Inr (acc @ map (\<lambda>entry.
            PDict [(''package_name'', PStr (split (strip entry) CHR '':'' ! 0)),
                   (''ecosystem'', PStr (split (strip entry) CHR '':'' ! 1)),
                   (''version'', PStr (split (strip entry) CHR '':'' ! 2))]) entries)"
  by (induction entries arbitrary: acc) (simp_all add: Let_def)

lemma parse_entries_bad:
  "\<exists>entry\<in>set entries. length (split (strip entry) CHR '':'') \<noteq> 3 \<Longrightarrow>
   \<exists>entry\<in>set entries. length (split (strip entry) CHR '':'') \<noteq> 3 \<and>
     parse_entries entries acc =
       Inl (ValueError (''Invalid package format: '' @ entry
              @ ''. Expected format: package:ecosystem:version''))"
proof (induction entries arbitrary: acc)
  case Nil
  then show ?case by simp
next
  case (Cons entry entries)
  show ?case
  proof (cases "length (split (strip entry) CHR '':'') = 3")
    case True
    with Cons.prems have "\<exists>x\<in>set entries. length (split (strip x) CHR '':'') \<noteq> 3"
      by simp
    from Cons.IH[OF this] True show ?thesis by (simp add: Let_def)
  next
    case False
    then show ?thesis by (simp add: Let_def)
  qed
qed

lemma all_keys_in_iff:
  "all_keys_in pkg keys = Inr True \<longleftrightarrow> (\<forall>key\<in>set keys. py_contains pkg key = Inr True)"
  by (induction keys) (auto split: sum.splits bool.splits)

lemma validate_packages_iff:
  "validate_packages pkgs = Inr () \<longleftrightarrow>
     (\<forall>pkg\<in>set pkgs. all_keys_in pkg required_keys = Inr True)"
  by (induction pkgs) (auto split: sum.splits bool.splits)

lemma validate_packages_keys:
  "validate_packages pkgs = Inr () \<longleftrightarrow>
     (\<forall>pkg\<in>set pkgs. \<forall>key\<in>set required_keys. py_contains pkg key = Inr True)"
  by (simp add: validate_packages_iff all_keys_in_iff)

lemma load_packages_ok:
  assumes "read_json env file_path = Inr packages" and "py_iter packages = Inr pkgs"
    and "\<forall>pkg\<in>set pkgs. \<forall>key\<in>set required_keys. py_contains pkg key = Inr True"
  shows "load_packages env file_path = Inr packages"
proof -
  from assms(3) have "validate_packages pkgs = Inr ()"
    by (simp only: validate_packages_keys)
  with assms(1,2) show ?thesis by (simp add: load_packages_def)
qed

lemma load_packages_bad:
  assumes "read_json env file_path = Inr packages" and "py_iter packages = Inr pkgs"
    and "\<exists>pkg\<in>set pkgs. \<exists>key\<in>set required_keys. py_contains pkg key \<noteq> Inr True"
  shows "\<exists>e. load_packages env file_path = Inl e"
proof -
  from assms(3) have "validate_packages pkgs \<noteq> Inr ()"
    by (simp only: validate_packages_keys) blast
  then obtain e where "validate_packages pkgs = Inl e"
    by (cases "validate_packages pkgs") auto
  with assms(1,2) show ?thesis by (simp add: load_packages_def)
qed

lemma load_packages_unreadable:
  assumes "(\<exists>m. read_json env file_path = Inl m) \<or>
           (\<exists>packages e. read_json env file_path = Inr packages \<and> py_iter packages = Inl e)"
  shows "\<exists>e. load_packages env file_path = Inl e"
  using assms by (auto simp: load_packages_def)

lemma parse_packages_from_file_cases:
  "parse_packages_from_file env file_path tr =
     (case load_packages env file_path of
        Inr packages \<Rightarrow> (Inr packages, tr)
      | Inl e \<Rightarrow> (Inl (SysExit 1), tr @ [Stderr_exc ''Error parsing packages file: '' e]))"
  by (simp add: parse_packages_from_file_def)

text \<open>
  C6. An inline package list is accepted when every entry between commas, stripped of
  surrounding whitespace, splits on \<^verbatim>\<open>:\<close> into three parts; the parts become
  \<^verbatim>\<open>package_name\<close>, \<^verbatim>\<open>ecosystem\<close> and \<^verbatim>\<open>version\<close> in that order. A packages file is accepted
  when it can be read and every element contains the three keys (for an element that is
  a dictionary: has them among its keys). Anything else prints one error line on stderr
  and exits with code 1; no list is returned.
\<close>

theorem package_list_shape_validated:
  "((\<forall>entry\<in>set (split s CHR '',''). length (split (strip entry) CHR '':'') = 3) \<longrightarrow>
      parse_packages_from_args s tr =
        (Inr (PList (map (\<lambda>entry.
            PDict [(''package_name'', PStr (split (strip entry) CHR '':'' ! 0)),
                   (''ecosystem'', PStr (split (strip entry) CHR '':'' ! 1)),
                   (''version'', PStr (split (strip entry) CHR '':'' ! 2))])
            (split s CHR '',''))), tr))
   \<and> ((\<exists>entry\<in>set (split s CHR '',''). length (split (strip entry) CHR '':'') \<noteq> 3) \<longrightarrow>
      (\<exists>e. parse_packages_from_args s tr =
         (Inl (SysExit 1), tr @ [Stderr_exc ''Error parsing packages: '' e])))
   \<and> (read_json env path = Inr packages \<and> py_iter packages = Inr pkgs \<and>
        (\<forall>pkg\<in>set pkgs. \<forall>key\<in>set [''package_name'', ''ecosystem'', ''version''].
           py_contains pkg key = Inr True) \<longrightarrow>
      parse_packages_from_file env path tr = (Inr packages, tr))
   \<and> (read_json env path = Inr packages \<and> py_iter packages = Inr pkgs \<and>
        (\<exists>pkg\<in>set pkgs. \<exists>key\<in>set [''package_name'', ''ecosystem'', ''version''].
           py_contains pkg key \<noteq> Inr True) \<longrightarrow>
      (\<exists>e. parse_packages_from_file env path tr =
         (Inl (SysExit 1), tr @ [Stderr_exc ''Error parsing packages file: '' e])))
   \<and> ((\<exists>m. read_json env path = Inl m) \<or>
       (\<exists>v e. read_json env path = Inr v \<and> py_iter v = Inl e) \<longrightarrow>
      (\<exists>e. parse_packages_from_file env path tr =
         (Inl (SysExit 1), tr @ [Stderr_exc ''Error parsing packages file: '' e])))
   \<and> py_contains (PDict d) key = Inr (key \<in> fst ` set d)"
proof (intro conjI impI)
  assume "\<forall>entry\<in>set (split s CHR '',''). length (split (strip entry) CHR '':'') = 3"
  from parse_entries_ok[OF this, of "[]"]
  show "parse_packages_from_args s tr =
        (Inr (PList (map (\<lambda>entry.
            PDict [(''package_name'', PStr (split (strip entry) CHR '':'' ! 0)),
                   (''ecosystem'', PStr (split (strip entry) CHR '':'' ! 1)),
                   (''version'', PStr (split (strip entry) CHR '':'' ! 2))])
            (split s CHR '',''))), tr)"
    by (simp add: parse_packages_from_args_def)
next
  assume "\<exists>entry\<in>set (split s CHR '',''). length (split (strip entry) CHR '':'') \<noteq> 3"
  from parse_entries_bad[OF this, of "[]"]
  obtain e where "parse_entries (split s CHR '','') [] = Inl e" by blast
  then show "\<exists>e. parse_packages_from_args s tr =
         (Inl (SysExit 1), tr @ [Stderr_exc ''Error parsing packages: '' e])"
    by (simp add: parse_packages_from_args_def)
next
  assume "read_json env path = Inr packages \<and> py_iter packages = Inr pkgs \<and>
        (\<forall>pkg\<in>set pkgs. \<forall>key\<in>set [''package_name'', ''ecosystem'', ''version''].
           py_contains pkg key = Inr True)"
  then have "load_packages env path = Inr packages"
    using load_packages_ok[of env path packages pkgs] by (simp add: required_keys_def)
  then show "parse_packages_from_file env path tr = (Inr packages, tr)"
    by (simp add: parse_packages_from_file_cases)
next
  assume "read_json env path = Inr packages \<and> py_iter packages = Inr pkgs \<and>
        (\<exists>pkg\<in>set pkgs. \<exists>key\<in>set [''package_name'', ''ecosystem'', ''version''].
           py_contains pkg key \<noteq> Inr True)"
  then have "\<exists>e. load_packages env path = Inl e"
    using load_packages_bad[of env path packages pkgs] by (simp add: required_keys_def)
  then show "\<exists>e. parse_packages_from_file env path tr =
         (Inl (SysExit 1), tr @ [Stderr_exc ''Error parsing packages file: '' e])"
    by (auto simp: parse_packages_from_file_cases)
next
  assume "(\<exists>m. read_json env path = Inl m) \<or>
       (\<exists>v e. read_json env path = Inr v \<and> py_iter v = Inl e)"
  from load_packages_unreadable[OF this]
  show "\<exists>e. parse_packages_from_file env path tr =
         (Inl (SysExit 1), tr @ [Stderr_exc ''Error parsing packages file: '' e])"
    by (auto simp: parse_packages_from_file_cases)
next
  show "py_contains (PDict d) key = Inr (key \<in> fst ` set d)" by simp
qed

lemma split_sample:
  "split ''requests:PyPI:2.25.0, lodash:npm:4.17.20'' CHR '','' =
     [''requests:PyPI:2.25.0'', '' lodash:npm:4.17.20'']"
  "split (strip ''requests:PyPI:2.25.0'') CHR '':'' = [''requests'', ''PyPI'', ''2.25.0'']"
  "split (strip '' lodash:npm:4.17.20'') CHR '':'' = [''lodash'', ''npm'', ''4.17.20'']"
  "split ''requests:PyPI'' CHR '','' = [''requests:PyPI'']"
  "split (strip ''requests:PyPI'') CHR '':'' = [''requests'', ''PyPI'']"
  by (simp_all add: strip_def isspace_def)

theorem package_list_shape_validated_witness:
  "parse_packages_from_args ''requests:PyPI:2.25.0, lodash:npm:4.17.20'' [] =
     (Inr (PList sample_packages), [])
   \<and> (\<exists>e. parse_packages_from_args ''requests:PyPI'' [] =
         (Inl (SysExit 1), [Stderr_exc ''Error parsing packages: '' e]))
   \<and> parse_packages_from_file (finding_env\<lparr>read_json := \<lambda>p. Inr (PList sample_packages)\<rparr>)
       ''packages.json'' [] = (Inr (PList sample_packages), [])
   \<and> (\<exists>e. parse_packages_from_file finding_env ''packages.json'' [] =
         (Inl (SysExit 1), [Stderr_exc ''Error parsing packages file: '' e]))
   \<and> (\<exists>e. parse_packages_from_file failing_env ''packages.json'' [] =
         (Inl (SysExit 1), [Stderr_exc ''Error parsing packages file: '' e]))"
proof -
  have "parse_packages_from_args ''requests:PyPI:2.25.0, lodash:npm:4.17.20'' [] =
     (Inr (PList sample_packages), [])"
    using package_list_shape_validated[where tr = "[]"
        and s = "''requests:PyPI:2.25.0, lodash:npm:4.17.20''"]
    by (simp add: split_sample sample_packages_def)
  moreover have "\<exists>e. parse_packages_from_args ''requests:PyPI'' [] =
         (Inl (SysExit 1), [Stderr_exc ''Error parsing packages: '' e])"
    using package_list_shape_validated[where tr = "[]" and s = "''requests:PyPI''"]
    by (simp add: split_sample)
  moreover have "parse_packages_from_file
       (finding_env\<lparr>read_json := \<lambda>p. Inr (PList sample_packages)\<rparr>)
       ''packages.json'' [] = (Inr (PList sample_packages), [])"
    using package_list_shape_validated[where tr = "[]" and path = "''packages.json''"
        and env = "finding_env\<lparr>read_json := \<lambda>p. Inr (PList sample_packages)\<rparr>"
        and packages = "PList sample_packages" and pkgs = sample_packages]
    by (simp add: sample_packages_def)
  moreover have "\<exists>e. parse_packages_from_file finding_env ''packages.json'' [] =
         (Inl (SysExit 1), [Stderr_exc ''Error parsing packages file: '' e])"
    using package_list_shape_validated[where tr = "[]" and path = "''packages.json''"
        and env = finding_env
        and packages = "PList [PDict [(''package_name'', PStr ''lodash'')]]"
        and pkgs = "[PDict [(''package_name'', PStr ''lodash'')]]"]
    by (simp add: finding_env_def)
  moreover have "\<exists>e. parse_packages_from_file failing_env ''packages.json'' [] =
         (Inl (SysExit 1), [Stderr_exc ''Error parsing packages file: '' e])"
    using package_list_shape_validated[where tr = "[]" and path = "''packages.json''"
        and env = failing_env]
    by (simp add: failing_env_def)
  ultimately show ?thesis by simp
qed

section \<open>The batch scan\<close>

lemma package_fields_getitem:
  assumes "package_fields pkg = Some (n, e, v)"
  shows "py_getitem pkg ''package_name'' = Inr (PStr n)"
    and "py_getitem pkg ''ecosystem'' = Inr (PStr e)"
    and "py_getitem pkg ''version'' = Inr (PStr v)"
  using assms
  by (auto simp: package_fields_def split: pyval.splits option.splits)

lemma batch_loop_step:
  assumes "package_fields pkg = Some (n, e, v)"
    and "scan_package env self (PStr n) (PStr e) (PStr v) tr = (Inr r, tr')"
  shows "batch_loop env self (pkg # pkgs) acc tr = batch_loop env self pkgs (acc @ [r]) tr'"
  using package_fields_getitem[OF assms(1)] assms(2) by simp

lemma scan_package_fields:
  "\<exists>r. scan_package env self (PStr n) (PStr e) (PStr v) tr =
         (Inr r, tr @ [Agent_run (query_for env (n, e, v))])"
  by (simp add: scan_package_str query_for_def)

lemma batch_loop_fields:
  assumes "map package_fields pkgs = map Some ts"
  shows "\<exists>rs. batch_loop env self pkgs acc tr =
                (Inr (acc @ rs), tr @ map (\<lambda>t. Agent_run (query_for env t)) ts)
              \<and> length rs = length ts
              \<and> (\<forall>i<length ts.
                   scan_package env self (PStr (fst (ts ! i))) (PStr (fst (snd (ts ! i))))
                       (PStr (snd (snd (ts ! i))))
                       (tr @ map (\<lambda>t. Agent_run (query_for env t)) (take i ts))
                   = (Inr (rs ! i),
                      tr @ map (\<lambda>t. Agent_run (query_for env t)) (take (Suc i) ts)))"
  using assms
proof (induction pkgs arbitrary: ts acc tr)
  case Nil
  then show ?case by simp
next
  case (Cons pkg pkgs)
  from Cons.prems obtain t ts' where ts: "ts = t # ts'"
    and t: "package_fields pkg = Some t" and rest: "map package_fields pkgs = map Some ts'"
    by (cases ts) auto
  obtain n e v where nev: "t = (n, e, v)" by (cases t) auto
  let ?ev = "\<lambda>t. Agent_run (query_for env t)"
  obtain r where r: "scan_package env self (PStr n) (PStr e) (PStr v) tr = (Inr r, tr @ [?ev t])"
    using scan_package_fields[of env self n e v tr] nev by auto
  from Cons.IH[OF rest, of "acc @ [r]" "tr @ [?ev t]"]
  obtain rs where loop: "batch_loop env self pkgs (acc @ [r]) (tr @ [?ev t]) =
        (Inr ((acc @ [r]) @ rs), (tr @ [?ev t]) @ map ?ev ts')"
    and len: "length rs = length ts'"
    and each: "\<forall>i<length ts'.
        scan_package env self (PStr (fst (ts' ! i))) (PStr (fst (snd (ts' ! i))))
            (PStr (snd (snd (ts' ! i)))) ((tr @ [?ev t]) @ map ?ev (take i ts'))
        = (Inr (rs ! i), (tr @ [?ev t]) @ map ?ev (take (Suc i) ts'))"
    by blast
  have step: "batch_loop env self (pkg # pkgs) acc tr =
      batch_loop env self pkgs (acc @ [r]) (tr @ [?ev t])"
    using batch_loop_step[of pkg n e v env self tr r] t nev r by simp
  have "batch_loop env self (pkg # pkgs) acc tr = (Inr (acc @ r # rs), tr @ map ?ev ts)"
    using step loop ts by simp
  moreover have "length (r # rs) = length ts" using len ts by simp
  moreover have "\<forall>i<length ts.
        scan_package env self (PStr (fst (ts ! i))) (PStr (fst (snd (ts ! i))))
            (PStr (snd (snd (ts ! i)))) (tr @ map ?ev (take i ts))
        = (Inr ((r # rs) ! i), tr @ map ?ev (take (Suc i) ts))"
  proof (intro allI impI)
    fix i assume i: "i < length ts"
    show "scan_package env self (PStr (fst (ts ! i))) (PStr (fst (snd (ts ! i))))
            (PStr (snd (snd (ts ! i)))) (tr @ map ?ev (take i ts))
        = (Inr ((r # rs) ! i), tr @ map ?ev (take (Suc i) ts))"
    proof (cases i)
      case 0
      then show ?thesis using r ts nev by simp
    next
      case (Suc j)
      with i ts have "j < length ts'" by simp
      with each Suc ts show ?thesis by simp
    qed
  qed
  ultimately show ?case by blast
qed

text \<open>
  For a list of package dictionaries whose three fields are strings,
  \<^verbatim>\<open>scan_packages_batch\<close> returns a list as long as its input, the empty list for the
  empty input, and its element at each position is what \<^verbatim>\<open>scan_package\<close> returns for the
  fields of the package at that position, called after the scans of the packages before
  it. The agent is asked one query for each package, in order.
\<close>

lemma batch_of_string_fields:
  assumes "map package_fields packages = map Some triples"
  shows "\<exists>results.
           scan_packages_batch env self (PList packages) tr =
             (Inr results, tr @ map (\<lambda>t. Agent_run (query_for env t)) triples)
           \<and> length results = length packages
           \<and> (\<forall>i<length packages.
                scan_package env self (PStr (fst (triples ! i)))
                    (PStr (fst (snd (triples ! i)))) (PStr (snd (snd (triples ! i))))
                    (tr @ map (\<lambda>t. Agent_run (query_for env t)) (take i triples))
                = (Inr (results ! i),
                   tr @ map (\<lambda>t. Agent_run (query_for env t)) (take (Suc i) triples)))"
proof -
  from assms have "length (map package_fields packages) = length (map Some triples)"
    by simp
  then have len: "length packages = length triples" by simp
  from batch_loop_fields[OF assms, of env self "[]" tr] len
  show ?thesis by (simp add: scan_packages_batch_def)
qed

text \<open>
  C5. \<^verbatim>\<open>scan_packages_batch\<close> is the loop over \<^verbatim>\<open>scan_package\<close>, and where every field is
  a string it returns the list of the scans (\<open>batch_of_string_fields\<close>). It does not
  return a list for every list of package dictionaries. The packages file
  \<^verbatim>\<open>[{"package_name": "requests", "ecosystem": "PyPI", "version": null}]\<close> passes the
  validation of \<^verbatim>\<open>parse_packages_from_file\<close>, which looks at the keys only. When running
  the agent raises on its package, \<^verbatim>\<open>scan_package\<close> cannot build the error record and
  raises \<^verbatim>\<open>ValidationError\<close>; \<^verbatim>\<open>scan_packages_batch\<close> raises it too and returns no list, and
  the run ends with exit code 1.
\<close>

theorem batch_raises_without_list:
  "parse_packages_from_file null_version_env ''packages.json'' [] =
     (Inr null_version_packages, [])
   \<and> scan_packages_batch null_version_env sample_agent null_version_packages
         [Agent_created (osv_server sample_agent)]
     = (Inl ValidationError,
        [Agent_created (osv_server sample_agent),
         Agent_run ''Scan requests version None from PyPI ecosystem for vulnerabilities''])
   \<and> py_sum (scan_modes file_args) = 1
   \<and> main null_version_env file_args
     = (1, [Agent_created (MCPServerSSE ''http://localhost:8080/sse''),
            Agent_run ''Scan requests version None from PyPI ecosystem for vulnerabilities'',
            Stderr_exc ''Error: '' ValidationError])"
proof -
  have parsed: "parse_packages_from_file null_version_env ''packages.json'' [] =
     (Inr null_version_packages, [])"
    by (simp add: parse_packages_from_file_def load_packages_def null_version_env_def
          null_version_packages_def required_keys_def)
  have query: "\<And>env. scan_query env (PStr ''requests'') (PStr ''PyPI'') PNone =
      ''Scan requests version None from PyPI ecosystem for vulnerabilities''"
    by (simp add: scan_query_def fstr_def)
  have scan: "scan_package null_version_env sample_agent (PStr ''requests'') (PStr ''PyPI'')
         PNone [Agent_created (osv_server sample_agent)]
     = (Inl ValidationError,
        [Agent_created (osv_server sample_agent),
         Agent_run ''Scan requests version None from PyPI ecosystem for vulnerabilities''])"
    by (simp add: scan_package_def query VulnerabilityInfo_new_def null_version_env_def
          failing_env_def)
  have batch: "scan_packages_batch null_version_env sample_agent null_version_packages
         [Agent_created (osv_server sample_agent)]
     = (Inl ValidationError,
        [Agent_created (osv_server sample_agent),
         Agent_run ''Scan requests version None from PyPI ecosystem for vulnerabilities''])"
    using scan by (simp add: scan_packages_batch_def null_version_packages_def)
  have modes: "py_sum (scan_modes file_args) = 1"
    by (simp add: py_sum_def scan_modes_def file_args_def sample_args_def py_and_def)
  have init: "OSVAgent_init null_version_env \<lparr>osv_server_url = arg_osv_server file_args,
           anthropic_api_key = arg_anthropic_api_key file_args\<rparr> = Inr sample_agent"
    by (simp add: OSVAgent_init_def null_version_env_def failing_env_def file_args_def
          sample_args_def sample_agent_def sample_config_def py_or_def select_transport_def
          endswith_def)
  have parsed': "parse_packages_from_file null_version_env ''packages.json''
      [Agent_created (osv_server sample_agent)] =
     (Inr null_version_packages, [Agent_created (osv_server sample_agent)])"
    by (simp add: parse_packages_from_file_def load_packages_def null_version_env_def
          null_version_packages_def required_keys_def)
  have out: "scan_output null_version_env file_args sample_agent
         [Agent_created (osv_server sample_agent)]
     = (Inl (Exc ValidationError),
        [Agent_created (osv_server sample_agent),
         Agent_run ''Scan requests version None from PyPI ecosystem for vulnerabilities''])"
    using batch parsed'
    by (simp add: scan_output_def passes_def file_args_def sample_args_def batch_output_def)
  have "main null_version_env file_args
     = (1, [Agent_created (osv_server sample_agent),
            Agent_run ''Scan requests version None from PyPI ecosystem for vulnerabilities'',
            Stderr_exc ''Error: '' ValidationError])"
    using modes init out by (simp add: main_def main_try_def)
  then have "main null_version_env file_args
     = (1, [Agent_created (MCPServerSSE ''http://localhost:8080/sse''),
            Agent_run ''Scan requests version None from PyPI ecosystem for vulnerabilities'',
            Stderr_exc ''Error: '' ValidationError])"
    by (simp add: sample_agent_def)
  with parsed batch modes show ?thesis by simp
qed

section \<open>The exit code\<close>

lemma Bex_lessThan_4: "(\<exists>i\<in>{..<4::nat}. P i) \<longleftrightarrow> P 0 \<or> P 1 \<or> P 2 \<or> P 3"
proof -
  have "{..<4::nat} = {0, 1, 2, 3}" by auto
  then show ?thesis by simp
qed

lemma Bex_atMost_small:
  "(\<exists>j\<in>{..0::nat}. Q j) \<longleftrightarrow> Q 0"
  "(\<exists>j\<in>{..1::nat}. Q j) \<longleftrightarrow> Q 0 \<or> Q 1"
  "(\<exists>j\<in>{..2::nat}. Q j) \<longleftrightarrow> Q 0 \<or> Q 1 \<or> Q 2"
  "(\<exists>j\<in>{..3::nat}. Q j) \<longleftrightarrow> Q 0 \<or> Q 1 \<or> Q 2 \<or> Q 3"
proof -
  have "{..0::nat} = {0}" "{..1::nat} = {0, 1}" "{..2::nat} = {0, 1, 2}"
    "{..3::nat} = {0, 1, 2, 3}" by auto
  then show "(\<exists>j\<in>{..0::nat}. Q j) \<longleftrightarrow> Q 0"
    "(\<exists>j\<in>{..1::nat}. Q j) \<longleftrightarrow> Q 0 \<or> Q 1"
    "(\<exists>j\<in>{..2::nat}. Q j) \<longleftrightarrow> Q 0 \<or> Q 1 \<or> Q 2"
    "(\<exists>j\<in>{..3::nat}. Q j) \<longleftrightarrow> Q 0 \<or> Q 1 \<or> Q 2 \<or> Q 3" by simp_all
qed

lemma case_map_nonempty:
  "(case map f l of [] \<Rightarrow> a | x # xs \<Rightarrow> b) = (if l = [] then a else b)"
  by (cases l) simp_all

lemma nonempty_list_under_model_dump:
  "nonempty_list_under (model_dump r) ''low_vulnerabilities'' = False"
  "nonempty_list_under (model_dump r) ''medium_vulnerabilities'' = (medium_vulnerabilities r \<noteq> [])"
  "nonempty_list_under (model_dump r) ''high_vulnerabilities'' = (high_vulnerabilities r \<noteq> [])"
  "nonempty_list_under (model_dump r) ''critical_vulnerabilities'' =
     (critical_vulnerabilities r \<noteq> [])"
  by (simp_all add: nonempty_list_under_def model_dump_def case_map_nonempty)

lemma severity_levels_nth:
  "length severity_levels = 4"
  "severity_levels ! 0 = ''low''" "severity_levels ! 1 = ''medium''"
  "severity_levels ! 2 = ''high''" "severity_levels ! 3 = ''critical''"
  by (simp_all add: severity_levels_def)

text \<open>The specification's test on one dumped record, for each threshold.\<close>

lemma spec_levels_model_dump:
  assumes "list_index severity_levels t = Inr k"
  shows "(\<exists>i \<in> {..<length severity_levels}. \<exists>j \<in> {..i}.
            severity_levels ! j = t \<and>
            nonempty_list_under (model_dump r) (severity_levels ! i @ ''_vulnerabilities''))
         \<longleftrightarrow> (k \<le> 1 \<and> medium_vulnerabilities r \<noteq> []) \<or> (k \<le> 2 \<and> high_vulnerabilities r \<noteq> [])
              \<or> (k \<le> 3 \<and> critical_vulnerabilities r \<noteq> [])"
proof -
  have under: "nonempty_list_under (model_dump r) (''low'' @ ''_vulnerabilities'') = False"
    "nonempty_list_under (model_dump r) (''medium'' @ ''_vulnerabilities'')
       = (medium_vulnerabilities r \<noteq> [])"
    "nonempty_list_under (model_dump r) (''high'' @ ''_vulnerabilities'')
       = (high_vulnerabilities r \<noteq> [])"
    "nonempty_list_under (model_dump r) (''critical'' @ ''_vulnerabilities'')
       = (critical_vulnerabilities r \<noteq> [])"
    using nonempty_list_under_model_dump[of r] by simp_all
  from assms have "t = ''low'' \<and> k = 0 \<or> t = ''medium'' \<and> k = 1 \<or> t = ''high'' \<and> k = 2
      \<or> t = ''critical'' \<and> k = 3"
    by (auto simp: severity_levels_def split: if_splits)
  then show ?thesis
    unfolding severity_levels_nth(1) Bex_lessThan_4 Bex_atMost_small severity_levels_nth(2-5)
      under
    by (elim disjE conjE) auto
qed

lemma list_index_member:
  "t \<in> set severity_levels \<Longrightarrow> \<exists>k. list_index severity_levels t = Inr k"
  by (auto simp: severity_levels_def)

lemma has_vulnerabilities_single_spec:
  assumes "t \<in> set severity_levels"
  shows "has_vulnerabilities_above_threshold (model_dump r) t =
           Inr (spec_above_threshold (model_dump r) t)"
proof -
  from list_index_member[OF assms] obtain k where k: "list_index severity_levels t = Inr k"
    by blast
  have "results_of (model_dump r) = [model_dump r]"
    by (simp add: results_of_def model_dump_def)
  then show ?thesis
    using spec_levels_model_dump[OF k, of r]
    by (simp add: spec_above_threshold_def has_vulnerabilities_model_dump k
          check_single_model_dump)
qed

lemma has_vulnerabilities_list_spec:
  assumes "t \<in> set severity_levels"
  shows "has_vulnerabilities_above_threshold (PList (map model_dump rs)) t =
           Inr (spec_above_threshold (PList (map model_dump rs)) t)"
proof -
  from list_index_member[OF assms] obtain k where k: "list_index severity_levels t = Inr k"
    by blast
  show ?thesis
    using spec_levels_model_dump[OF k]
    by (simp add: spec_above_threshold_def has_vulnerabilities_above_threshold_def k
          check_results_model_dump results_of_def)
qed

lemma has_vulnerabilities_details_spec:
  assumes "t \<in> set severity_levels"
  shows "has_vulnerabilities_above_threshold
           (PDict [(''vulnerability_id'', PStr vid), (''details'', PStr d)]) t =
         Inr (spec_above_threshold
           (PDict [(''vulnerability_id'', PStr vid), (''details'', PStr d)]) t)"
proof -
  let ?out = "PDict [(''vulnerability_id'', PStr vid), (''details'', PStr d)]"
  from list_index_member[OF assms] obtain k where k: "list_index severity_levels t = Inr k"
    by blast
  have check: "check_single_result_threshold ?out k severity_levels = Inr False"
    by (simp add: check_single_result_threshold_def severity_levels_def upt_4)
  have "\<And>key. nonempty_list_under ?out (key @ ''_vulnerabilities'') = False"
    by (simp add: nonempty_list_under_def)
  then have spec: "spec_above_threshold ?out t = False"
    by (simp add: spec_above_threshold_def results_of_def)
  have "has_vulnerabilities_above_threshold ?out t =
      check_single_result_threshold ?out k severity_levels"
    by (simp add: has_vulnerabilities_above_threshold_def k)
  with check spec show ?thesis by simp
qed

text \<open>What \<^verbatim>\<open>main\<close> can hold in \<^verbatim>\<open>output\<close>.\<close>

lemma batch_output_shape:
  assumes "batch_output env agent parsed = (Inr output, tr)"
  shows "\<exists>rs packages tr1. output = PList (map model_dump rs) \<and>
           scan_packages_batch env agent packages tr1 = (Inr rs, tr)"
  using assms
  by (auto simp: batch_output_def split: prod.splits sum.splits)

lemma scan_output_shape:
  assumes "scan_output env a agent tr0 = (Inr output, tr)"
  shows "(\<exists>vid d. output = PDict [(''vulnerability_id'', PStr vid), (''details'', PStr d)])
       \<or> (\<exists>r name eco ver. output = model_dump r \<and>
             scan_package env agent name eco ver tr0 = (Inr r, tr))
       \<or> (\<exists>rs packages tr1. output = PList (map model_dump rs) \<and>
             scan_packages_batch env agent packages tr1 = (Inr rs, tr))"
proof (cases "passes (arg_vulnerability_id a)")
  case (Some vid)
  with assms show ?thesis by (auto simp: scan_output_def split: prod.splits)
next
  case None
  note no_vid = None
  show ?thesis
  proof (cases "passes (arg_package a)")
    case (Some p)
    with assms no_vid show ?thesis
      by (auto simp: scan_output_def split: prod.splits sum.splits)
  next
    case None
    note no_pkg = None
    show ?thesis
    proof (cases "passes (arg_packages a)")
      case (Some ps)
      with assms no_vid no_pkg
      have "batch_output env agent (parse_packages_from_args ps tr0) = (Inr output, tr)"
        by (simp add: scan_output_def)
      from batch_output_shape[OF this] show ?thesis by blast
    next
      case None
      note no_pkgs = None
      show ?thesis
      proof (cases "passes (arg_packages_file a)")
        case (Some f)
        with assms no_vid no_pkg no_pkgs
        have "batch_output env agent (parse_packages_from_file env f tr0) = (Inr output, tr)"
          by (simp add: scan_output_def)
        from batch_output_shape[OF this] show ?thesis by blast
      next
        case None
        with assms no_vid no_pkg no_pkgs show ?thesis by (simp add: scan_output_def)
      qed
    qed
  qed
qed

lemma scan_output_spec:
  assumes "scan_output env a agent tr0 = (Inr output, tr)" and "t \<in> set severity_levels"
  shows "has_vulnerabilities_above_threshold output t = Inr (spec_above_threshold output t)"
  using scan_output_shape[OF assms(1)] has_vulnerabilities_details_spec[OF assms(2)]
    has_vulnerabilities_single_spec[OF assms(2)] has_vulnerabilities_list_spec[OF assms(2)]
  by (elim disjE exE conjE) simp_all

text \<open>
  Writing the report returns or raises; the events it adds are a file, a notice, a report.
\<close>

lemma write_output_cases:
  "(\<exists>tr'. write_output env a output tr = (Inr (), tr'))
   \<or> (\<exists>m tr'. write_output env a output tr = (Inl (Exc (Raised m)), tr'))"
  by (simp add: write_output_def Let_def split: option.splits)

text \<open>A run that has an output ends as writing the report and the policy say.\<close>

lemma main_after_scan:
  assumes "py_sum (scan_modes a) = 1"
    and "OSVAgent_init env \<lparr>osv_server_url = arg_osv_server a,
           anthropic_api_key = arg_anthropic_api_key a\<rparr> = Inr agent"
    and "scan_output env a agent [Agent_created (osv_server agent)] = (Inr output, tr)"
    and "has_vulnerabilities_above_threshold output (arg_severity_threshold a) = Inr b"
  shows "fst (main env a) =
           (case fst (write_output env a output tr) of
              Inl ab \<Rightarrow> 1
            | Inr u \<Rightarrow> if arg_fail_on_vulnerabilities a \<and> b then 1 else 0)"
proof -
  from write_output_cases[of env a "output" tr] show ?thesis
  proof (elim disjE exE)
    fix tr' assume "write_output env a output tr = (Inr (), tr')"
    with assms show ?thesis by (simp add: main_def main_try_def fail_policy_def)
  next
    fix m tr' assume "write_output env a output tr = (Inl (Exc (Raised m)), tr')"
    with assms show ?thesis by (simp add: main_def main_try_def)
  qed
qed

text \<open>
  C1 (as amended). Take a run with one scan mode whose agent was built and whose scan
  gave an output, and a threshold of the ordered list.
  \<^verbatim>\<open>has_vulnerabilities_above_threshold\<close> holds exactly when some result of the output has a
  non-empty list under the key \<^verbatim>\<open><s>_vulnerabilities\<close> of a severity \<open>s\<close> at or after the
  threshold in that list. When the report is written and printed without an exception,
  the exit code is 1 with \<^verbatim>\<open>--fail-on-vulnerabilities\<close> when it holds and 0 otherwise. When
  writing or printing the report raises, the exit code is 1 whatever the output holds.
\<close>

theorem exit_code_follows_threshold:
  assumes "py_sum (scan_modes a) = 1"
    and "OSVAgent_init env \<lparr>osv_server_url = arg_osv_server a,
           anthropic_api_key = arg_anthropic_api_key a\<rparr> = Inr agent"
    and "scan_output env a agent [Agent_created (osv_server agent)] = (Inr output, tr)"
    and "arg_severity_threshold a \<in> set severity_levels"
  shows "has_vulnerabilities_above_threshold output (arg_severity_threshold a) =
           Inr (spec_above_threshold output (arg_severity_threshold a))
       \<and> fst (main env a) =
           (case fst (write_output env a output tr) of
              Inl ab \<Rightarrow> 1
            | Inr u \<Rightarrow>
                if arg_fail_on_vulnerabilities a
                   \<and> spec_above_threshold output (arg_severity_threshold a)
                then 1 else 0)"
proof -
  have spec: "has_vulnerabilities_above_threshold output (arg_severity_threshold a) =
           Inr (spec_above_threshold output (arg_severity_threshold a))"
    by (rule scan_output_spec[OF assms(3) assms(4)])
  from main_after_scan[OF assms(1-3) spec] spec show ?thesis by simp
qed

lemma sample_init:
  "OSVAgent_init finding_env \<lparr>osv_server_url = arg_osv_server sample_args,
           anthropic_api_key = arg_anthropic_api_key sample_args\<rparr> = Inr sample_agent"
  "OSVAgent_init failing_env \<lparr>osv_server_url = arg_osv_server sample_args,
           anthropic_api_key = arg_anthropic_api_key sample_args\<rparr> = Inr sample_agent"
  "OSVAgent_init unwritable_env \<lparr>osv_server_url = arg_osv_server report_args,
           anthropic_api_key = arg_anthropic_api_key report_args\<rparr> = Inr sample_agent"
  "OSVAgent_init unwritable_failing_env \<lparr>osv_server_url = arg_osv_server report_args,
           anthropic_api_key = arg_anthropic_api_key report_args\<rparr> = Inr sample_agent"
  by (simp_all add: OSVAgent_init_def finding_env_def failing_env_def unwritable_env_def
        unwritable_failing_env_def sample_args_def report_args_def
        sample_agent_def sample_config_def py_or_def select_transport_def endswith_def)

lemma sample_modes:
  "py_sum (scan_modes sample_args) = 1"
  "py_sum (scan_modes report_args) = 1"
  by (simp_all add: py_sum_def scan_modes_def sample_args_def report_args_def py_and_def)

lemma sample_scan:
  "scan_output finding_env sample_args sample_agent [Agent_created (osv_server sample_agent)]
     = (Inr (model_dump sample_finding),
        [Agent_created (osv_server sample_agent),
         Agent_run ''Scan requests version 2.25.0 from PyPI ecosystem for vulnerabilities''])"
  "scan_output unwritable_env report_args sample_agent
       [Agent_created (osv_server sample_agent)]
     = (Inr (model_dump sample_finding),
        [Agent_created (osv_server sample_agent),
         Agent_run ''Scan requests version 2.25.0 from PyPI ecosystem for vulnerabilities''])"
  by (simp_all add: scan_output_def passes_def sample_args_def report_args_def
        scan_package_str scan_query_str finding_env_def unwritable_env_def)

lemma sample_finding_thresholds:
  "has_vulnerabilities_above_threshold (model_dump sample_finding) ''medium'' = Inr True"
  "has_vulnerabilities_above_threshold (model_dump sample_finding) ''critical'' = Inr False"
  by (simp_all add: has_vulnerabilities_model_dump list_index_levels check_single_model_dump
        sample_finding_def)

text \<open>The sample run finds a high vulnerability above the threshold \<^verbatim>\<open>medium\<close> and exits
  with code 1.\<close>

theorem exit_code_follows_threshold_witness:
  "py_sum (scan_modes sample_args) = 1
   \<and> arg_severity_threshold sample_args \<in> set severity_levels
   \<and> scan_output finding_env sample_args sample_agent [Agent_created (osv_server sample_agent)]
       = (Inr (model_dump sample_finding),
          [Agent_created (osv_server sample_agent),
           Agent_run ''Scan requests version 2.25.0 from PyPI ecosystem for vulnerabilities''])
   \<and> has_vulnerabilities_above_threshold (model_dump sample_finding) ''medium'' = Inr True
   \<and> spec_above_threshold (model_dump sample_finding) ''medium''
   \<and> fst (main finding_env sample_args) = 1"
proof -
  let ?tr = "[Agent_created (osv_server sample_agent),
           Agent_run ''Scan requests version 2.25.0 from PyPI ecosystem for vulnerabilities'']"
  have thr: "arg_severity_threshold sample_args \<in> set severity_levels"
    by (simp add: sample_args_def severity_levels_def)
  have written: "fst (write_output finding_env sample_args (model_dump sample_finding) ?tr)
      = Inr ()"
    by (simp add: write_output_def passes_def sample_args_def finding_env_def)
  have t: "arg_severity_threshold sample_args = ''medium''"
    and f: "arg_fail_on_vulnerabilities sample_args" by (simp_all add: sample_args_def)
  from exit_code_follows_threshold[OF sample_modes(1) sample_init(1) sample_scan(1) thr]
    sample_finding_thresholds(1) written t f
  have "spec_above_threshold (model_dump sample_finding) ''medium''
      \<and> fst (main finding_env sample_args) = 1" by simp
  with sample_modes(1) thr sample_scan(1) sample_finding_thresholds(1) show ?thesis by simp
qed

text \<open>
  With \<^verbatim>\<open>--output-file /report.txt --severity-threshold critical\<close>, a report file that
  cannot be written and the same finding, nothing is at or above the threshold and the
  exit code is 1.
\<close>

theorem exit_code_follows_threshold_counterexample:
  "py_sum (scan_modes report_args) = 1
   \<and> arg_fail_on_vulnerabilities report_args
   \<and> arg_severity_threshold report_args = ''critical''
   \<and> scan_output unwritable_env report_args sample_agent
         [Agent_created (osv_server sample_agent)]
       = (Inr (model_dump sample_finding),
          [Agent_created (osv_server sample_agent),
           Agent_run ''Scan requests version 2.25.0 from PyPI ecosystem for vulnerabilities''])
   \<and> has_vulnerabilities_above_threshold (model_dump sample_finding) ''critical'' = Inr False
   \<and> main unwritable_env report_args
       = (1, [Agent_created (MCPServerSSE ''http://localhost:8080/sse''),
              Agent_run ''Scan requests version 2.25.0 from PyPI ecosystem for vulnerabilities'',
              Stderr_exc ''Error: '' (Raised ''Permission denied'')])"
proof -
  let ?tr = "[Agent_created (osv_server sample_agent),
           Agent_run ''Scan requests version 2.25.0 from PyPI ecosystem for vulnerabilities'']"
  have written: "write_output unwritable_env report_args (model_dump sample_finding) ?tr
      = (Inl (Exc (Raised ''Permission denied'')), ?tr)"
    by (simp add: write_output_def passes_def report_args_def sample_args_def
          unwritable_env_def finding_env_def)
  have "main unwritable_env report_args
       = (1, ?tr @ [Stderr_exc ''Error: '' (Raised ''Permission denied'')])"
    using sample_modes(2) sample_init(3) sample_scan(2) written
    by (simp add: main_def main_try_def)
  then have "main unwritable_env report_args
       = (1, [Agent_created (MCPServerSSE ''http://localhost:8080/sse''),
              Agent_run ''Scan requests version 2.25.0 from PyPI ecosystem for vulnerabilities'',
              Stderr_exc ''Error: '' (Raised ''Permission denied'')])"
    by (simp add: sample_agent_def)
  moreover have "arg_fail_on_vulnerabilities report_args"
    "arg_severity_threshold report_args = ''critical''"
    by (simp_all add: report_args_def sample_args_def)
  ultimately show ?thesis
    using sample_modes(2) sample_scan(2) sample_finding_thresholds(2) by simp
qed

section \<open>Failed scans\<close>

lemma scan_package_failed:
  assumes "agent_run env self tr (scan_query env name eco ver) = Inl m"
    and "scan_package env self name eco ver tr = (Inr r, tr')"
  shows "critical_vulnerabilities r = [] \<and> high_vulnerabilities r = []
       \<and> medium_vulnerabilities r = []"
  using assms
  by (auto simp: scan_package_def VulnerabilityInfo_new_def split: pyval.splits)

lemma batch_loop_failed:
  assumes "\<forall>self tr q. \<exists>m. agent_run env self tr q = Inl m"
    and "batch_loop env self pkgs acc tr = (Inr rs, tr')"
    and "\<forall>r\<in>set acc. critical_vulnerabilities r = [] \<and> high_vulnerabilities r = []
           \<and> medium_vulnerabilities r = []"
  shows "\<forall>r\<in>set rs. critical_vulnerabilities r = [] \<and> high_vulnerabilities r = []
           \<and> medium_vulnerabilities r = []"
  using assms(2,3)
proof (induction pkgs arbitrary: acc tr)
  case Nil
  then show ?case by simp
next
  case (Cons pkg pkgs)
  from Cons.prems(1) obtain name eco ver r tr1
    where scan: "scan_package env self name eco ver tr = (Inr r, tr1)"
      and rest: "batch_loop env self pkgs (acc @ [r]) tr1 = (Inr rs, tr')"
    by (auto split: sum.splits prod.splits)
  from assms(1) obtain m where "agent_run env self tr (scan_query env name eco ver) = Inl m"
    by blast
  from scan_package_failed[OF this scan] Cons.prems(2)
  have "\<forall>r\<in>set (acc @ [r]). critical_vulnerabilities r = [] \<and> high_vulnerabilities r = []
           \<and> medium_vulnerabilities r = []"
    by simp
  from Cons.IH[OF rest this] show ?case .
qed

lemma scan_packages_batch_failed:
  assumes "\<forall>self tr q. \<exists>m. agent_run env self tr q = Inl m"
    and "scan_packages_batch env self packages tr = (Inr rs, tr')"
  shows "\<forall>r\<in>set rs. critical_vulnerabilities r = [] \<and> high_vulnerabilities r = []
           \<and> medium_vulnerabilities r = []"
proof -
  from assms(2) obtain pkgs where "batch_loop env self pkgs [] tr = (Inr rs, tr')"
    by (auto simp: scan_packages_batch_def split: sum.splits)
  from batch_loop_failed[OF assms(1) this] show ?thesis by simp
qed

lemma scan_output_failed:
  assumes "\<forall>self tr q. \<exists>m. agent_run env self tr q = Inl m"
    and "scan_output env a agent tr0 = (Inr output, tr)"
    and "t \<in> set severity_levels"
  shows "has_vulnerabilities_above_threshold output t = Inr False"
proof -
  from list_index_member[OF assms(3)] obtain k where k: "list_index severity_levels t = Inr k"
    by blast
  from scan_output_shape[OF assms(2)] show ?thesis
  proof (elim disjE exE conjE)
    fix vid d assume "output = PDict [(''vulnerability_id'', PStr vid), (''details'', PStr d)]"
    then show ?thesis
      by (simp add: has_vulnerabilities_above_threshold_def k
            check_single_result_threshold_def severity_levels_nth(1) upt_4)
  next
    fix r name eco ver
    assume out: "output = model_dump r"
      and scan: "scan_package env agent name eco ver tr0 = (Inr r, tr)"
    from assms(1) obtain m where "agent_run env agent tr0 (scan_query env name eco ver) = Inl m"
      by blast
    from scan_package_failed[OF this scan] out show ?thesis
      by (simp add: has_vulnerabilities_model_dump k check_single_model_dump)
  next
    fix rs packages tr1
    assume out: "output = PList (map model_dump rs)"
      and batch: "scan_packages_batch env agent packages tr1 = (Inr rs, tr)"
    from scan_packages_batch_failed[OF assms(1) batch] out show ?thesis
      by (simp add: has_vulnerabilities_above_threshold_def k check_results_model_dump)
  qed
qed

lemma list_index_absent: "t \<notin> set xs \<Longrightarrow> \<exists>e. list_index xs t = Inl e"
  by (induction xs) auto

lemma scan_output_failed_never_true:
  assumes "\<forall>self tr q. \<exists>m. agent_run env self tr q = Inl m"
    and "scan_output env a agent tr0 = (Inr output, tr)"
  shows "has_vulnerabilities_above_threshold output t \<noteq> Inr True"
proof (cases "t \<in> set severity_levels")
  case True
  from scan_output_failed[OF assms True] show ?thesis by simp
next
  case False
  from list_index_absent[OF this] obtain e where "list_index severity_levels t = Inl e"
    by blast
  then show ?thesis by (simp add: has_vulnerabilities_above_threshold_def)
qed

subsection \<open>Where the line of the policy comes from\<close>

lemma scan_package_trace:
  "snd (scan_package env self name eco ver tr) = tr @ [Agent_run (scan_query env name eco ver)]"
  by (simp add: scan_package_def Let_def split: sum.splits)

lemma batch_loop_trace:
  "Stderr_vulnerabilities t \<notin> set tr \<Longrightarrow>
   Stderr_vulnerabilities t \<notin> set (snd (batch_loop env self pkgs acc tr))"
proof (induction pkgs arbitrary: acc tr)
  case Nil
  then show ?case by simp
next
  case (Cons pkg pkgs)
  show ?case
  proof (cases "\<exists>name eco ver. py_getitem pkg ''package_name'' = Inr name
      \<and> py_getitem pkg ''ecosystem'' = Inr eco \<and> py_getitem pkg ''version'' = Inr ver")
    case False
    with Cons.prems show ?thesis by (auto split: sum.splits)
  next
    case True
    then obtain name eco ver where g: "py_getitem pkg ''package_name'' = Inr name"
      "py_getitem pkg ''ecosystem'' = Inr eco" "py_getitem pkg ''version'' = Inr ver"
      by blast
    obtain x tr1 where scan: "scan_package env self name eco ver tr = (x, tr1)"
      by (cases "scan_package env self name eco ver tr") auto
    with scan_package_trace[of env self name eco ver tr]
    have tr1: "tr1 = tr @ [Agent_run (scan_query env name eco ver)]" by simp
    with Cons.prems have clean: "Stderr_vulnerabilities t \<notin> set tr1" by simp
    show ?thesis
    proof (cases x)
      case (Inl e)
      with g scan clean show ?thesis by simp
    next
      case (Inr r)
      with g scan Cons.IH[OF clean, of "acc @ [r]"] show ?thesis by simp
    qed
  qed
qed

lemma scan_packages_batch_trace:
  "Stderr_vulnerabilities t \<notin> set tr \<Longrightarrow>
   Stderr_vulnerabilities t \<notin> set (snd (scan_packages_batch env self packages tr))"
  by (auto simp: scan_packages_batch_def batch_loop_trace split: sum.splits)

lemma batch_output_trace:
  "Stderr_vulnerabilities t \<notin> set (snd parsed) \<Longrightarrow>
   Stderr_vulnerabilities t \<notin> set (snd (batch_output env agent parsed))"
proof (cases parsed)
  case (Pair p tr)
  assume clean: "Stderr_vulnerabilities t \<notin> set (snd parsed)"
  show ?thesis
  proof (cases p)
    case (Inl ab)
    with Pair clean show ?thesis by (simp add: batch_output_def)
  next
    case (Inr packages)
    from clean Pair have "Stderr_vulnerabilities t \<notin> set tr" by simp
    from scan_packages_batch_trace[OF this, of env agent packages] Pair Inr
    show ?thesis
      by (cases "scan_packages_batch env agent packages tr")
         (auto simp: batch_output_def split: sum.splits)
  qed
qed

lemma parse_trace:
  "Stderr_vulnerabilities t \<notin> set tr \<Longrightarrow>
   Stderr_vulnerabilities t \<notin> set (snd (parse_packages_from_args ps tr))"
  "Stderr_vulnerabilities t \<notin> set tr \<Longrightarrow>
   Stderr_vulnerabilities t \<notin> set (snd (parse_packages_from_file env f tr))"
  by (auto simp: parse_packages_from_args_def parse_packages_from_file_def split: sum.splits)

lemma scan_output_trace:
  assumes "Stderr_vulnerabilities t \<notin> set tr"
  shows "Stderr_vulnerabilities t \<notin> set (snd (scan_output env a agent tr))"
proof (cases "passes (arg_vulnerability_id a)")
  case (Some vid)
  with assms show ?thesis
    by (simp add: scan_output_def get_vulnerability_details_def Let_def split: sum.splits)
next
  case None
  note no_vid = None
  show ?thesis
  proof (cases "passes (arg_package a)")
    case (Some p)
    obtain x tr1 where scan: "scan_package env agent (PStr p) (of_opt (arg_ecosystem a))
        (of_opt (arg_version a)) tr = (x, tr1)"
      by (cases "scan_package env agent (PStr p) (of_opt (arg_ecosystem a))
        (of_opt (arg_version a)) tr") auto
    with scan_package_trace[of env agent "PStr p" "of_opt (arg_ecosystem a)"
        "of_opt (arg_version a)" tr] assms
    have "Stderr_vulnerabilities t \<notin> set tr1" by simp
    with no_vid Some scan show ?thesis
      by (cases x) (simp_all add: scan_output_def)
  next
    case None
    note no_pkg = None
    show ?thesis
    proof (cases "passes (arg_packages a)")
      case (Some ps)
      from batch_output_trace[OF parse_trace(1)[OF assms], of env agent ps] no_vid no_pkg Some
      show ?thesis by (simp add: scan_output_def)
    next
      case None
      note no_pkgs = None
      show ?thesis
      proof (cases "passes (arg_packages_file a)")
        case (Some f)
        from batch_output_trace[OF parse_trace(2)[OF assms], of env agent env f]
          no_vid no_pkg no_pkgs Some
        show ?thesis by (simp add: scan_output_def)
      next
        case None
        with assms no_vid no_pkg no_pkgs show ?thesis by (simp add: scan_output_def)
      qed
    qed
  qed
qed

lemma write_output_trace:
  "Stderr_vulnerabilities t \<notin> set tr \<Longrightarrow>
   Stderr_vulnerabilities t \<notin> set (snd (write_output env a output tr))"
  by (simp add: write_output_def Let_def split: option.splits)

text \<open>The line of the policy is printed only after a scan output on which the threshold
  test holds.\<close>

lemma main_policy_line:
  assumes "Stderr_vulnerabilities t \<in> set (snd (main env a))"
  shows "\<exists>agent output tr.
           scan_output env a agent [Agent_created (osv_server agent)] = (Inr output, tr)
           \<and> has_vulnerabilities_above_threshold output (arg_severity_threshold a) = Inr True"
proof (rule ccontr)
  assume none: "\<not> ?thesis"
  let ?cfg = "\<lparr>osv_server_url = arg_osv_server a,
               anthropic_api_key = arg_anthropic_api_key a\<rparr>"
  have "Stderr_vulnerabilities t \<notin> set (snd (main env a))"
  proof (cases "py_sum (scan_modes a) = 1")
    case False
    then show ?thesis by (simp add: main_def)
  next
    case True
    note modes = True
    show ?thesis
    proof (cases "OSVAgent_init env ?cfg")
      case (Inl e)
      with modes show ?thesis by (simp add: main_def main_try_def)
    next
      case (Inr agent)
      note init = Inr
      obtain so tr where scan:
        "scan_output env a agent [Agent_created (osv_server agent)] = (so, tr)"
        by (cases "scan_output env a agent [Agent_created (osv_server agent)]") auto
      from scan_output_trace[of t "[Agent_created (osv_server agent)]" env a agent] scan
      have clean: "Stderr_vulnerabilities t \<notin> set tr" by simp
      show ?thesis
      proof (cases so)
        case (Inl ab)
        with modes init scan clean show ?thesis
          by (cases ab) (simp_all add: main_def main_try_def)
      next
        case (Inr out)
        note has_output = Inr
        with none scan
        have not_true: "has_vulnerabilities_above_threshold out (arg_severity_threshold a)
            \<noteq> Inr True" by blast
        obtain w tr' where written: "write_output env a out tr = (w, tr')"
          by (cases "write_output env a out tr") auto
        from write_output_trace[OF clean, of env a out] written
        have clean': "Stderr_vulnerabilities t \<notin> set tr'" by simp
        from write_output_cases[of env a out tr] written
        have "w = Inr () \<or> (\<exists>m. w = Inl (Exc (Raised m)))" by auto
        then show ?thesis
        proof
          assume "\<exists>m. w = Inl (Exc (Raised m))"
          with modes init scan has_output written clean' show ?thesis
            by (auto simp: main_def main_try_def)
        next
          assume "w = Inr ()"
          with modes init scan has_output written clean' not_true show ?thesis
            by (cases "has_vulnerabilities_above_threshold out (arg_severity_threshold a)")
               (auto simp: main_def main_try_def fail_policy_def)
        qed
      qed
    qed
  qed
  with assms show False by simp
qed

text \<open>
  C9 (as amended). The default error record has three empty severity lists, so
  \<^verbatim>\<open>check_single_result_threshold\<close> is false on its dump for every threshold index. In an
  environment where every run of the agent raises an exception, \<^verbatim>\<open>scan_package\<close> on
  strings returns such a record, and no run of \<^verbatim>\<open>main\<close> prints the line of the policy: no
  run ends through the policy. A run with one scan mode whose agent was built and whose
  scans gave \<^verbatim>\<open>main\<close> an output exits with code 0, with \<^verbatim>\<open>--fail-on-vulnerabilities\<close> as
  without it, when the report is written and printed without an exception, and with
  code 1 when writing or printing the report raises.
\<close>

theorem failed_scans_exit_zero:
  assumes "\<forall>self tr q. \<exists>m. agent_run env self tr q = Inl m"
  shows "check_single_result_threshold
           (model_dump \<lparr>package_name = n, ecosystem = e, version = v,
                 vulnerabilities_found = 0,
                 critical_vulnerabilities = [], high_vulnerabilities = [],
                 medium_vulnerabilities = [],
                 recommendations = [''Error scanning package: '' @ m],
                 summary = ''Failed to scan '' @ n @ ''@'' @ v @ '': '' @ m\<rparr>)
           i severity_levels = Inr False
       \<and> (\<exists>r tr1. scan_package env self (PStr n) (PStr e) (PStr v) tr0 = (Inr r, tr1)
             \<and> check_single_result_threshold (model_dump r) i severity_levels = Inr False)
       \<and> Stderr_vulnerabilities t \<notin> set (snd (main env a))
       \<and> (py_sum (scan_modes a) = 1
            \<and> OSVAgent_init env \<lparr>osv_server_url = arg_osv_server a,
                 anthropic_api_key = arg_anthropic_api_key a\<rparr> = Inr agent
            \<and> scan_output env a agent [Agent_created (osv_server agent)] = (Inr out, tr)
            \<and> arg_severity_threshold a \<in> set severity_levels \<longrightarrow>
          fst (main env a) =
            (case fst (write_output env a out tr) of Inl ab \<Rightarrow> 1 | Inr u \<Rightarrow> 0))"
proof -
  have "check_single_result_threshold
           (model_dump \<lparr>package_name = n, ecosystem = e, version = v,
                 vulnerabilities_found = 0,
                 critical_vulnerabilities = [], high_vulnerabilities = [],
                 medium_vulnerabilities = [],
                 recommendations = [''Error scanning package: '' @ m],
                 summary = ''Failed to scan '' @ n @ ''@'' @ v @ '': '' @ m\<rparr>)
           i severity_levels = Inr False"
    by (simp add: check_single_model_dump)
  moreover have "\<exists>r tr1. scan_package env self (PStr n) (PStr e) (PStr v) tr0 = (Inr r, tr1)
             \<and> check_single_result_threshold (model_dump r) i severity_levels = Inr False"
  proof -
    from assms obtain m' where
      "agent_run env self tr0 (scan_query env (PStr n) (PStr e) (PStr v)) = Inl m'"
      by blast
    then show ?thesis by (simp add: scan_package_str check_single_model_dump)
  qed
  moreover have "Stderr_vulnerabilities t \<notin> set (snd (main env a))"
  proof
    assume "Stderr_vulnerabilities t \<in> set (snd (main env a))"
    from main_policy_line[OF this] obtain agent' out' tr' where
      "scan_output env a agent' [Agent_created (osv_server agent')] = (Inr out', tr')"
      "has_vulnerabilities_above_threshold out' (arg_severity_threshold a) = Inr True"
      by blast
    with scan_output_failed_never_true[OF assms, of a agent' _ out' tr'] show False by blast
  qed
  moreover have "py_sum (scan_modes a) = 1
            \<and> OSVAgent_init env \<lparr>osv_server_url = arg_osv_server a,
                 anthropic_api_key = arg_anthropic_api_key a\<rparr> = Inr agent
            \<and> scan_output env a agent [Agent_created (osv_server agent)] = (Inr out, tr)
            \<and> arg_severity_threshold a \<in> set severity_levels \<longrightarrow>
          fst (main env a) =
            (case fst (write_output env a out tr) of Inl ab \<Rightarrow> 1 | Inr u \<Rightarrow> 0)"
  proof (intro impI, elim conjE)
    assume h: "py_sum (scan_modes a) = 1"
      "OSVAgent_init env \<lparr>osv_server_url = arg_osv_server a,
                 anthropic_api_key = arg_anthropic_api_key a\<rparr> = Inr agent"
      "scan_output env a agent [Agent_created (osv_server agent)] = (Inr out, tr)"
      "arg_severity_threshold a \<in> set severity_levels"
    from main_after_scan[OF h(1-3) scan_output_failed[OF assms h(3) h(4)]]
    show "fst (main env a) =
            (case fst (write_output env a out tr) of Inl ab \<Rightarrow> 1 | Inr u \<Rightarrow> 0)"
      by simp
  qed
  ultimately show ?thesis by simp
qed

lemma failing_scan:
  "scan_output failing_env sample_args sample_agent [Agent_created (osv_server sample_agent)]
     = (Inr (model_dump
          \<lparr>package_name = ''requests'', ecosystem = ''PyPI'', version = ''2.25.0'',
           vulnerabilities_found = 0,
           critical_vulnerabilities = [], high_vulnerabilities = [],
           medium_vulnerabilities = [],
           recommendations = [''Error scanning package: connection refused''],
           summary = ''Failed to scan requests@2.25.0: connection refused''\<rparr>),
        [Agent_created (osv_server sample_agent),
         Agent_run ''Scan requests version 2.25.0 from PyPI ecosystem for vulnerabilities''])"
  "scan_output unwritable_failing_env report_args sample_agent
       [Agent_created (osv_server sample_agent)]
     = (Inr (model_dump
          \<lparr>package_name = ''requests'', ecosystem = ''PyPI'', version = ''2.25.0'',
           vulnerabilities_found = 0,
           critical_vulnerabilities = [], high_vulnerabilities = [],
           medium_vulnerabilities = [],
           recommendations = [''Error scanning package: connection refused''],
           summary = ''Failed to scan requests@2.25.0: connection refused''\<rparr>),
        [Agent_created (osv_server sample_agent),
         Agent_run ''Scan requests version 2.25.0 from PyPI ecosystem for vulnerabilities''])"
  by (simp_all add: scan_output_def passes_def sample_args_def report_args_def
        scan_package_str scan_query_str failing_env_def unwritable_failing_env_def)

theorem failed_scans_exit_zero_witness:
  "(\<forall>self tr q. \<exists>m. agent_run failing_env self tr q = Inl m)
   \<and> scan_output failing_env sample_args sample_agent [Agent_created (osv_server sample_agent)]
       = (Inr (model_dump
            \<lparr>package_name = ''requests'', ecosystem = ''PyPI'', version = ''2.25.0'',
             vulnerabilities_found = 0,
             critical_vulnerabilities = [], high_vulnerabilities = [],
             medium_vulnerabilities = [],
             recommendations = [''Error scanning package: connection refused''],
             summary = ''Failed to scan requests@2.25.0: connection refused''\<rparr>),
          [Agent_created (osv_server sample_agent),
           Agent_run ''Scan requests version 2.25.0 from PyPI ecosystem for vulnerabilities''])
   \<and> arg_fail_on_vulnerabilities sample_args
   \<and> Stderr_vulnerabilities ''medium'' \<notin> set (snd (main failing_env sample_args))
   \<and> fst (main failing_env sample_args) = 0"
proof -
  let ?r = "\<lparr>package_name = ''requests'', ecosystem = ''PyPI'', version = ''2.25.0'',
             vulnerabilities_found = 0,
             critical_vulnerabilities = [], high_vulnerabilities = [],
             medium_vulnerabilities = [],
             recommendations = [''Error scanning package: connection refused''],
             summary = ''Failed to scan requests@2.25.0: connection refused''\<rparr>"
  let ?tr = "[Agent_created (osv_server sample_agent),
           Agent_run ''Scan requests version 2.25.0 from PyPI ecosystem for vulnerabilities'']"
  have failing: "\<forall>self tr q. \<exists>m. agent_run failing_env self tr q = Inl m"
    by (simp add: failing_env_def)
  have thr: "arg_severity_threshold sample_args \<in> set severity_levels"
    by (simp add: sample_args_def severity_levels_def)
  have written: "fst (write_output failing_env sample_args (model_dump ?r) ?tr) = Inr ()"
    by (simp add: write_output_def passes_def sample_args_def failing_env_def)
  have flag: "arg_fail_on_vulnerabilities sample_args" by (simp add: sample_args_def)
  from failed_scans_exit_zero[OF failing, where a = sample_args and agent = sample_agent
      and out = "model_dump ?r" and tr = ?tr and t = "''medium''"]
    sample_modes(1) sample_init(2) failing_scan(1) thr written
  have "Stderr_vulnerabilities ''medium'' \<notin> set (snd (main failing_env sample_args))
      \<and> fst (main failing_env sample_args) = 0" by simp
  with failing failing_scan(1) flag show ?thesis by simp
qed

text \<open>
  With \<^verbatim>\<open>--output-file /report.txt\<close>, a report file that cannot be written and an agent
  that never answers, the one scan of the run errors out and the exit code is 1.
\<close>

theorem failed_scans_exit_zero_counterexample:
  "py_sum (scan_modes report_args) = 1
   \<and> arg_fail_on_vulnerabilities report_args
   \<and> agent_run unwritable_failing_env sample_agent [Agent_created (osv_server sample_agent)]
        ''Scan requests version 2.25.0 from PyPI ecosystem for vulnerabilities''
       = Inl ''connection refused''
   \<and> scan_output unwritable_failing_env report_args sample_agent
         [Agent_created (osv_server sample_agent)]
       = (Inr (model_dump
            \<lparr>package_name = ''requests'', ecosystem = ''PyPI'', version = ''2.25.0'',
             vulnerabilities_found = 0,
             critical_vulnerabilities = [], high_vulnerabilities = [],
             medium_vulnerabilities = [],
             recommendations = [''Error scanning package: connection refused''],
             summary = ''Failed to scan requests@2.25.0: connection refused''\<rparr>),
          [Agent_created (osv_server sample_agent),
           Agent_run ''Scan requests version 2.25.0 from PyPI ecosystem for vulnerabilities''])
   \<and> main unwritable_failing_env report_args
       = (1, [Agent_created (MCPServerSSE ''http://localhost:8080/sse''),
              Agent_run ''Scan requests version 2.25.0 from PyPI ecosystem for vulnerabilities'',
              Stderr_exc ''Error: '' (Raised ''Permission denied'')])"
proof -
  let ?r = "\<lparr>package_name = ''requests'', ecosystem = ''PyPI'', version = ''2.25.0'',
             vulnerabilities_found = 0,
             critical_vulnerabilities = [], high_vulnerabilities = [],
             medium_vulnerabilities = [],
             recommendations = [''Error scanning package: connection refused''],
             summary = ''Failed to scan requests@2.25.0: connection refused''\<rparr>"
  let ?tr = "[Agent_created (osv_server sample_agent),
           Agent_run ''Scan requests version 2.25.0 from PyPI ecosystem for vulnerabilities'']"
  have run: "agent_run unwritable_failing_env sample_agent
        [Agent_created (osv_server sample_agent)]
        ''Scan requests version 2.25.0 from PyPI ecosystem for vulnerabilities''
       = Inl ''connection refused''"
    by (simp add: unwritable_failing_env_def failing_env_def)
  have written: "write_output unwritable_failing_env report_args (model_dump ?r) ?tr
      = (Inl (Exc (Raised ''Permission denied'')), ?tr)"
    by (simp add: write_output_def passes_def report_args_def sample_args_def
          unwritable_failing_env_def failing_env_def)
  have "main unwritable_failing_env report_args
       = (1, ?tr @ [Stderr_exc ''Error: '' (Raised ''Permission denied'')])"
    using sample_modes(2) sample_init(4) failing_scan(2) written
    by (simp add: main_def main_try_def)
  then have "main unwritable_failing_env report_args
       = (1, [Agent_created (MCPServerSSE ''http://localhost:8080/sse''),
              Agent_run ''Scan requests version 2.25.0 from PyPI ecosystem for vulnerabilities'',
              Stderr_exc ''Error: '' (Raised ''Permission denied'')])"
    by (simp add: sample_agent_def)
  moreover have "arg_fail_on_vulnerabilities report_args"
    by (simp add: report_args_def sample_args_def)
  ultimately show ?thesis using sample_modes(2) run failing_scan(2) by simp
qed

end
